theory Spec2Isabelle
  imports Main
begin

section \<open>The tower\_schedule module\<close>

text \<open>
  The module \<^verbatim>\<open>tower_schedule.py\<close> turns the parameters of a schedule into one call of
  the remote client: it resolves the names of the target resources, serialises
  \<^verbatim>\<open>extra_data\<close>, normalises the start timestamp, builds the recurrence rule and
  dispatches to \<^verbatim>\<open>schedule.modify\<close> or \<^verbatim>\<open>schedule.delete\<close>. The functions below follow
  the Python text function by function. What Python leaves implicit is written out:
  an exception is a value, \<^verbatim>\<open>module.fail_json\<close> and \<^verbatim>\<open>module.exit_json\<close> end the run
  with an outcome, and every remote call is recorded in a trace.
\<close>

subsection \<open>Python values and their text\<close>

text \<open>
  The values a module parameter can hold: \<^verbatim>\<open>None\<close>, a boolean, an integer, a string or a
  dictionary with string keys. Strings are lists of characters with code points below
  256.
\<close>

datatype pyval =
    PyNone
  | PyBool bool
  | PyInt int
  | PyStr string
  | PyDict "(string \<times> pyval) list"

type_synonym params = "string \<rightharpoonup> pyval"

definition digit_char :: "nat \<Rightarrow> char" where
  "digit_char n = ''0123456789'' ! n"

definition hex_char :: "nat \<Rightarrow> char" where
  "hex_char n = ''0123456789abcdef'' ! n"

text \<open>\<^verbatim>\<open>str(n)\<close> for a natural number and for an integer: decimal, no padding.\<close>

fun str_nat :: "nat \<Rightarrow> string" where
  "str_nat n = (if n < 10 then [digit_char n] else str_nat (n div 10) @ [digit_char (n mod 10)])"

declare str_nat.simps [simp del]

definition str_int :: "int \<Rightarrow> string" where
  "str_int i = (if i < 0 then CHR ''-'' # str_nat (nat (- i)) else str_nat (nat i))"

text \<open>
  \<^verbatim>\<open>repr(s)\<close> of a string in Python 3: single quotes unless the string holds a single quote and no
  double quote; backslash, the chosen quote, newline, carriage return and tab are
  escaped, and every other character that is not printable (the control characters, the
  no-break space and the soft hyphen) is written \<^verbatim>\<open>\xNN\<close>.
\<close>

definition repr_char :: "char \<Rightarrow> char \<Rightarrow> string" where
  "repr_char q c =
     (if c = CHR 0x5C then [CHR 0x5C, CHR 0x5C]
      else if c = q then [CHR 0x5C, q]
      else if c = CHR 0x0A then [CHR 0x5C, CHR ''n'']
      else if c = CHR 0x0D then [CHR 0x5C, CHR ''r'']
      else if c = CHR 0x09 then [CHR 0x5C, CHR ''t'']
      else if (of_char c :: nat) < 32 \<or> (127 \<le> (of_char c :: nat) \<and> (of_char c :: nat) \<le> 160)
              \<or> (of_char c :: nat) = 173
        then [CHR 0x5C, CHR ''x'', hex_char (of_char c div 16), hex_char (of_char c mod 16)]
      else [c])"

definition repr_str :: "string \<Rightarrow> string" where
  "repr_str s =
     (let q = (if CHR 0x27 \<in> set s \<and> CHR 0x22 \<notin> set s then CHR 0x22 else CHR 0x27)
      in q # concat (map (repr_char q) s) @ [q])"

fun py_repr :: "pyval \<Rightarrow> string" and py_repr_items :: "(string \<times> pyval) list \<Rightarrow> string" where
  "py_repr PyNone = ''None''"
| "py_repr (PyBool b) = (if b then ''True'' else ''False'')"
| "py_repr (PyInt i) = str_int i"
| "py_repr (PyStr s) = repr_str s"
| "py_repr (PyDict kvs) = ''{'' @ py_repr_items kvs @ ''}''"
| "py_repr_items [] = []"
| "py_repr_items ((k, v) # kvs) =
     repr_str k @ '': '' @ py_repr v @ (if kvs = [] then [] else '', '' @ py_repr_items kvs)"

text \<open>\<^verbatim>\<open>str(v)\<close>, which is what \<^verbatim>\<open>'{0}'.format(v)\<close> inserts: a string stands for itself.\<close>

definition py_str :: "pyval \<Rightarrow> string" where
  "py_str v = (case v of PyStr s \<Rightarrow> s | _ \<Rightarrow> py_repr v)"

text \<open>The truth value of \<^verbatim>\<open>if v:\<close>.\<close>

definition truthy :: "pyval \<Rightarrow> bool" where
  "truthy v =
     (case v of
        PyNone \<Rightarrow> False
      | PyBool b \<Rightarrow> b
      | PyInt i \<Rightarrow> i \<noteq> 0
      | PyStr s \<Rightarrow> s \<noteq> []
      | PyDict kvs \<Rightarrow> kvs \<noteq> [])"

subsection \<open>Exceptions and outcomes\<close>

text \<open>
  The exceptions of the remote client library (\<^verbatim>\<open>tower_cli.exceptions\<close>), each with its
  text: the three the module names, and any other one.
\<close>

datatype tower_exc =
    NotFound string
  | ConnectionError string
  | BadRequest string
  | OtherTowerError string

fun exc_str :: "tower_exc \<Rightarrow> string" where
  "exc_str (NotFound m) = m"
| "exc_str (ConnectionError m) = m"
| "exc_str (BadRequest m) = m"
| "exc_str (OtherTowerError m) = m"

datatype py_exception =
    KeyError string
  | TypeError string
  | TowerError tower_exc

text \<open>
  A run of the module ends in one of three ways: \<^verbatim>\<open>exit_json\<close> with the output record,
  \<^verbatim>\<open>fail_json\<close> with a message and the \<^verbatim>\<open>changed\<close> flag, or an exception nobody caught.
  Both \<^verbatim>\<open>exit_json\<close> and \<^verbatim>\<open>fail_json\<close> leave the process, so nothing after them runs.
\<close>

record failure =
  fail_msg :: string
  fail_changed :: bool

datatype outcome =
    Exited params
  | Failed failure
  | Uncaught py_exception

subsection \<open>build\_rrule\<close>

definition unit_map :: "(string \<times> string) list" where
  "unit_map =
     [(''minute'', ''MINUTELY''),
      (''day'', ''DAILY''),
      (''hour'', ''HOURLY''),
      (''runonce'', ''DAILY'')]"

text \<open>
  \<^verbatim>\<open>d[key]\<close> on a dictionary literal with string keys: a missing key raises
  \<^verbatim>\<open>KeyError\<close>, a dictionary used as a key is unhashable.
\<close>

definition getitem :: "(string \<times> 'a) list \<Rightarrow> pyval \<Rightarrow> py_exception + 'a" where
  "getitem d key =
     (case key of
        PyStr k \<Rightarrow> (case map_of d k of None \<Rightarrow> Inl (KeyError (py_repr key)) | Some v \<Rightarrow> Inr v)
      | PyDict kvs \<Rightarrow> Inl (TypeError (''unhashable type: '' @ [CHR 0x27] @ ''dict'' @ [CHR 0x27]))
      | _ \<Rightarrow> Inl (KeyError (py_repr key)))"

definition build_rrule :: "string \<Rightarrow> pyval \<Rightarrow> pyval \<Rightarrow> py_exception + string" where
  "build_rrule startdate freq freq_unit =
     (case getitem unit_map freq_unit of
        Inl e \<Rightarrow> Inl e
      | Inr f \<Rightarrow>
          (let result = ''DTSTART:'' @ startdate @ '' RRULE:FREQ='' @ f @ '';INTERVAL='' @ py_str freq
           in Inr (if freq_unit = PyStr ''runonce'' then result @ ''COUNT=1'' else result)))"

subsection \<open>The library's datetime.strptime and strftime\<close>

text \<open>
  \<^verbatim>\<open>parse_datetime_string\<close> hands the work to the standard library, so the two library
  routines are modelled here, each for the one format string the module passes.
  \<^verbatim>\<open>strptime\<close> accepts and rejects the same inputs in Python 2 and 3; the texts of its
  errors are those of Python 3. What \<^verbatim>\<open>strftime\<close> does with the year depends on the
  interpreter and on the C library under it, so both are parameters.

  \<^verbatim>\<open>strptime\<close> compiles the format \<^verbatim>\<open>%Y-%m-%dT%H:%M:%SZ\<close> into the regular expression
  \<^verbatim>\<open>(?P<Y>\d\d\d\d)-(?P<m>1[0-2]|0[1-9]|[1-9])-(?P<d>3[0-1]|[1-2]\d|0[1-9]|[1-9]| [1-9])T\<close>
  \<^verbatim>\<open>(?P<H>2[0-3]|[0-1]\d|\d):(?P<M>[0-5]\d|\d):(?P<S>6[0-1]|[0-5]\d|\d)Z\<close>,
  matched at the start of the input, ignoring case. A matcher returns every way of
  matching a prefix, as (matched text, rest), in the order a backtracking engine tries
  them; the first complete match is the one \<^verbatim>\<open>re.match\<close> reports.
\<close>

definition is_digit :: "char \<Rightarrow> bool" where
  "is_digit c = (c \<in> set ''0123456789'')"

definition digit_val :: "char \<Rightarrow> nat" where
  "digit_val c = of_char c - 48"

type_synonym matcher = "string \<Rightarrow> (string \<times> string) list"

definition one :: "(char \<Rightarrow> bool) \<Rightarrow> matcher" where
  "one P s = (case s of [] \<Rightarrow> [] | c # r \<Rightarrow> if P c then [([c], r)] else [])"

definition seq :: "matcher \<Rightarrow> matcher \<Rightarrow> matcher" where
  "seq a b s = concat (map (\<lambda>(x, r). map (\<lambda>(y, r'). (x @ y, r')) (b r)) (a s))"

definition alt :: "matcher \<Rightarrow> matcher \<Rightarrow> matcher" where
  "alt a b s = a s @ b s"

text \<open>A digit between two bounds (\<^verbatim>\<open>[0-5]\<close>, \<^verbatim>\<open>\d\<close>, or one digit), and a literal.\<close>

definition rng :: "nat \<Rightarrow> nat \<Rightarrow> matcher" where
  "rng lo hi = one (\<lambda>c. is_digit c \<and> lo \<le> digit_val c \<and> digit_val c \<le> hi)"

definition lit :: "char \<Rightarrow> matcher" where
  "lit x = one (\<lambda>c. c = x)"

definition lit_ci :: "char \<Rightarrow> char \<Rightarrow> matcher" where
  "lit_ci u l = one (\<lambda>c. c = u \<or> c = l)"

definition re_Y :: matcher where
  "re_Y = seq (rng 0 9) (seq (rng 0 9) (seq (rng 0 9) (rng 0 9)))"

definition re_m :: matcher where
  "re_m = alt (seq (rng 1 1) (rng 0 2)) (alt (seq (rng 0 0) (rng 1 9)) (rng 1 9))"

definition re_d :: matcher where
  "re_d = alt (seq (rng 3 3) (rng 0 1)) (alt (seq (rng 1 2) (rng 0 9))
            (alt (seq (rng 0 0) (rng 1 9)) (alt (rng 1 9) (seq (lit CHR '' '') (rng 1 9)))))"

definition re_H :: matcher where
  "re_H = alt (seq (rng 2 2) (rng 0 3)) (alt (seq (rng 0 1) (rng 0 9)) (rng 0 9))"

definition re_M :: matcher where
  "re_M = alt (seq (rng 0 5) (rng 0 9)) (rng 0 9)"

definition re_S :: matcher where
  "re_S = alt (seq (rng 6 6) (rng 0 1)) (alt (seq (rng 0 5) (rng 0 9)) (rng 0 9))"

text \<open>A group followed by the literal after it; the group's text is kept.\<close>

definition field :: "matcher \<Rightarrow> matcher \<Rightarrow> matcher" where
  "field re sep s = concat (map (\<lambda>(g, r). map (\<lambda>(x, r'). (g, r')) (sep r)) (re s))"

definition bind :: "('a \<times> string) list \<Rightarrow> ('a \<Rightarrow> string \<Rightarrow> 'b list) \<Rightarrow> 'b list" where
  "bind xs f = concat (map (\<lambda>(a, r). f a r) xs)"

definition iso_regex ::
  "string \<Rightarrow> ((string \<times> string \<times> string \<times> string \<times> string \<times> string) \<times> string) list" where
  "iso_regex s =
     bind (field re_Y (lit CHR ''-'') s) (\<lambda>Y r.
     bind (field re_m (lit CHR ''-'') r) (\<lambda>m r.
     bind (field re_d (lit_ci CHR ''T'' CHR ''t'') r) (\<lambda>d r.
     bind (field re_H (lit CHR '':'') r) (\<lambda>H r.
     bind (field re_M (lit CHR '':'') r) (\<lambda>M r.
     bind (field re_S (lit_ci CHR ''Z'' CHR ''z'') r) (\<lambda>S r.
       [((Y, m, d, H, M, S), r)]))))))"

text \<open>\<^verbatim>\<open>int(group)\<close> on a group of digits; the day group may start with a blank.\<close>

definition py_int :: "string \<Rightarrow> nat" where
  "py_int s = foldl (\<lambda>a c. 10 * a + digit_val c) 0 (dropWhile (\<lambda>c. c = CHR '' '') s)"

record datetime =
  dt_year :: nat
  dt_month :: nat
  dt_day :: nat
  dt_hour :: nat
  dt_minute :: nat
  dt_second :: nat

definition is_leap :: "nat \<Rightarrow> bool" where
  "is_leap y = (y mod 4 = 0 \<and> (y mod 100 \<noteq> 0 \<or> y mod 400 = 0))"

definition days_in_month :: "nat \<Rightarrow> nat \<Rightarrow> nat" where
  "days_in_month y m =
     (if m = 2 \<and> is_leap y then 29
      else [31, 28, 31, 30, 31, 30, 31, 31, 30, 31, 30, 31] ! (m - 1))"

definition iso_format :: string where
  "iso_format = ''%Y-%m-%dT%H:%M:%SZ''"

text \<open>
  \<^verbatim>\<open>datetime.strptime(data_string, "%Y-%m-%dT%H:%M:%SZ")\<close>: the datetime, or the text
  of the \<^verbatim>\<open>ValueError\<close>. After the match the library builds a date and then a datetime,
  whose constructors check the ranges (years run from 1 to 9999).
\<close>

definition strptime :: "string \<Rightarrow> string + datetime" where
  "strptime data_string =
     (case iso_regex data_string of
        [] \<Rightarrow> Inl (''time data '' @ repr_str data_string
                  @ '' does not match format '' @ repr_str iso_format)
      | ((Y, m, d, H, M, S), rest) # _ \<Rightarrow>
          if rest \<noteq> [] then Inl (''unconverted data remains: '' @ rest)
          else
            (let year = py_int Y; month = py_int m; day = py_int d;
                 hour = py_int H; minute = py_int M; second = py_int S
             in if year < 1 \<or> 9999 < year then Inl (''year '' @ str_nat year @ '' is out of range'')
                else if month < 1 \<or> 12 < month then Inl ''month must be in 1..12''
                else if day < 1 \<or> days_in_month year month < day
                  then Inl ''day is out of range for month''
                else if 23 < hour then Inl ''hour must be in 0..23''
                else if 59 < minute then Inl ''minute must be in 0..59''
                else if 59 < second then Inl ''second must be in 0..59''
                else Inr \<lparr>dt_year = year, dt_month = month, dt_day = day,
                          dt_hour = hour, dt_minute = minute, dt_second = second\<rparr>))"

text \<open>
  \<^verbatim>\<open>datetime.strftime(dt, "%Y%m%dT%H%M%SZ")\<close>. Python 2 refuses a year before 1900 with a
  \<^verbatim>\<open>ValueError\<close>; Python 3 takes every year. The text of \<^verbatim>\<open>%Y\<close> comes from the C library:
  some pad the year to four digits with zeros, glibc writes it as a plain decimal
  number, so that the year 999 has three digits. Every other field has two digits,
  padded with zeros.
\<close>

datatype interpreter = Python2 | Python3

record py_runtime =
  interp :: interpreter
  libc_pads_year :: bool

definition pad2 :: "nat \<Rightarrow> string" where
  "pad2 n = [digit_char (n div 10 mod 10), digit_char (n mod 10)]"

definition pad4 :: "nat \<Rightarrow> string" where
  "pad4 n = [digit_char (n div 1000 mod 10), digit_char (n div 100 mod 10),
             digit_char (n div 10 mod 10), digit_char (n mod 10)]"

definition strftime :: "py_runtime \<Rightarrow> datetime \<Rightarrow> string + string" where
  "strftime rt dt =
     (if interp rt = Python2 \<and> dt_year dt < 1900
      then Inl (''year='' @ str_nat (dt_year dt)
                @ '' is before 1900; the datetime strftime() methods require year >= 1900'')
      else Inr ((if libc_pads_year rt then pad4 (dt_year dt) else str_nat (dt_year dt))
                @ pad2 (dt_month dt) @ pad2 (dt_day dt) @ ''T''
                @ pad2 (dt_hour dt) @ pad2 (dt_minute dt) @ pad2 (dt_second dt) @ ''Z''))"

subsection \<open>parse\_datetime\_string\<close>

text \<open>
  Both library calls stand in the \<^verbatim>\<open>try\<close> block: a \<^verbatim>\<open>ValueError\<close> of either is caught and
  becomes \<^verbatim>\<open>module.fail_json\<close>, which ends the run; the \<^verbatim>\<open>return\<close> is reached only when
  both calls succeeded.
\<close>

definition parse_datetime_string :: "py_runtime \<Rightarrow> string \<Rightarrow> outcome + string" where
  "parse_datetime_string rt dt_string =
     (case (case strptime dt_string of
              Inl excinfo \<Rightarrow> Inl excinfo
            | Inr dt \<Rightarrow> strftime rt dt) of
        Inl excinfo \<Rightarrow>
          Inl (Failed \<lparr>fail_msg = ''Failed to update schedule, unable to parse datetime ''
                                    @ dt_string @ '': '' @ excinfo,
                       fail_changed = False\<rparr>)
      | Inr result \<Rightarrow> Inr result)"

subsection \<open>Dictionaries: values and objects\<close>

text \<open>\<^verbatim>\<open>d.get(k)\<close> and \<^verbatim>\<open>d.pop(k)\<close> on a dictionary value; \<^verbatim>\<open>pop\<close> raises on a missing key.\<close>

definition dict_get :: "params \<Rightarrow> string \<Rightarrow> pyval" where
  "dict_get d k = (case d k of None \<Rightarrow> PyNone | Some v \<Rightarrow> v)"

definition dict_pop :: "params \<Rightarrow> string \<Rightarrow> py_exception + (pyval \<times> params)" where
  "dict_pop d k =
     (case d k of
        None \<Rightarrow> Inl (KeyError (repr_str k))
      | Some v \<Rightarrow> Inr (v, d(k := None)))"

text \<open>
  Python dictionaries are objects: two names can denote the same dictionary, and a
  function can change the dictionary its caller passed. Where that matters the
  dictionaries live in a store, addressed by reference; references below
  \<open>next_ref\<close> are in use.
\<close>

record store =
  objs :: "nat \<Rightarrow> params"
  next_ref :: nat

definition st_new :: "store \<Rightarrow> store \<times> nat" where
  "st_new st =
     (st\<lparr>objs := (objs st)(next_ref st := Map.empty), next_ref := Suc (next_ref st)\<rparr>,
      next_ref st)"

definition st_copy :: "store \<Rightarrow> nat \<Rightarrow> store \<times> nat" where
  "st_copy st r =
     (st\<lparr>objs := (objs st)(next_ref st := objs st r), next_ref := Suc (next_ref st)\<rparr>,
      next_ref st)"

definition st_setitem :: "store \<Rightarrow> nat \<Rightarrow> string \<Rightarrow> pyval \<Rightarrow> store" where
  "st_setitem st r k v = st\<lparr>objs := (objs st)(r := (objs st r)(k \<mapsto> v))\<rparr>"

definition st_pop :: "store \<Rightarrow> nat \<Rightarrow> string \<Rightarrow> py_exception + (pyval \<times> store)" where
  "st_pop st r k =
     (case dict_pop (objs st r) k of
        Inl e \<Rightarrow> Inl e
      | Inr (v, d) \<Rightarrow> Inr (v, st\<lparr>objs := (objs st)(r := d)\<rparr>))"

definition st_update :: "store \<Rightarrow> nat \<Rightarrow> nat \<Rightarrow> store" where
  "st_update st r u = st\<lparr>objs := (objs st)(r := objs st r ++ objs st u)\<rparr>"

text \<open>
  A function on the store that returns one dictionary, run on a dictionary value: the
  caller holds the only reference and reads the returned dictionary afterwards.
\<close>

definition on_value ::
  "(store \<Rightarrow> nat \<Rightarrow> py_exception + (store \<times> nat)) \<Rightarrow> params \<Rightarrow> py_exception + params" where
  "on_value f d =
     (case f \<lparr>objs = (\<lambda>r. d), next_ref = 1\<rparr> 0 of
        Inl e \<Rightarrow> Inl e
      | Inr (st, r) \<Rightarrow> Inr (objs st r))"

subsection \<open>update\_fields\<close>

text \<open>
  \<^verbatim>\<open>field_map\<close> is the empty dictionary literal, so the renaming loop has nothing to
  rename. The loop is kept as the code has it: it pops the old key from the copy and
  stores the value under the new key in \<^verbatim>\<open>params_update\<close>. \<^verbatim>\<open>yaml.dump\<close> belongs to a
  library and is a parameter.
\<close>

definition field_map :: "(string \<times> string) list" where
  "field_map = []"

fun rename_fields :: "(string \<times> string) list \<Rightarrow> store \<Rightarrow> nat \<Rightarrow> nat \<Rightarrow> py_exception + store" where
  "rename_fields [] st params params_update = Inr st"
| "rename_fields ((old_k, new_k) # rest) st params params_update =
     (case st_pop st params old_k of
        Inl e \<Rightarrow> Inl e
      | Inr (v, st') \<Rightarrow> rename_fields rest (st_setitem st' params_update new_k v) params params_update)"

definition update_fields :: "(pyval \<Rightarrow> string) \<Rightarrow> store \<Rightarrow> nat \<Rightarrow> py_exception + (store \<times> nat)" where
  "update_fields yaml_dump st p =
     (let (st1, params) = st_copy st p;
          (st2, params_update) = st_new st1
      in case rename_fields field_map st2 params params_update of
           Inl e \<Rightarrow> Inl e
         | Inr st3 \<Rightarrow>
             (let extra_data = dict_get (objs st3 params) ''extra_data'';
                  st4 = (if extra_data \<noteq> PyNone
                         then st_setitem st3 params_update ''extra_data'' (PyStr (yaml_dump extra_data))
                         else st3);
                  st5 = st_update st4 params params_update
              in Inr (st5, params)))"

subsection \<open>The remote client\<close>

text \<open>
  The remote service is reached through \<^verbatim>\<open>tower_cli\<close>. Its three operations are
  parameters of the model: the lookup \<^verbatim>\<open>get_resource(k).get(**{v: x})\<close>, of which the
  module reads the \<^verbatim>\<open>id\<close>, and \<^verbatim>\<open>schedule.modify\<close> and \<^verbatim>\<open>schedule.delete\<close>, of which it
  reads \<^verbatim>\<open>id\<close> and \<^verbatim>\<open>changed\<close>. Each either returns or raises one of the library's
  exceptions. Every call made is appended to a trace. The environment of a run also
  holds the interpreter and C library it runs on.
\<close>

record modify_result =
  res_id :: pyval
  res_changed :: pyval

record env =
  get_resource :: "string \<Rightarrow> string \<Rightarrow> pyval \<Rightarrow> tower_exc + pyval"
  schedule_modify :: "params \<Rightarrow> tower_exc + modify_result"
  schedule_delete :: "params \<Rightarrow> tower_exc + pyval"
  yaml_dump :: "pyval \<Rightarrow> string"
  runtime :: py_runtime

datatype call =
    Lookup string string pyval
  | Modify params
  | Delete params

fun is_lookup :: "call \<Rightarrow> bool" where
  "is_lookup (Lookup k v x) = True"
| "is_lookup (Modify ps) = False"
| "is_lookup (Delete ps) = False"

text \<open>The parameters of the create-or-update and delete calls of a trace, in order.\<close>

fun modify_calls :: "call list \<Rightarrow> params list" where
  "modify_calls [] = []"
| "modify_calls (Modify ps # cs) = ps # modify_calls cs"
| "modify_calls (c # cs) = modify_calls cs"

fun delete_calls :: "call list \<Rightarrow> params list" where
  "delete_calls [] = []"
| "delete_calls (Delete ps # cs) = ps # delete_calls cs"
| "delete_calls (c # cs) = delete_calls cs"

subsection \<open>update\_resources\<close>

text \<open>
  The loop runs over \<^verbatim>\<open>identity_map\<close> in the order the literal lists its keys. Only
  \<^verbatim>\<open>NotFound\<close> is caught; the \<^verbatim>\<open>KeyError\<close> of \<^verbatim>\<open>params[k]\<close> and every other exception of
  the lookup leave the function. The function works on a copy of its argument.
\<close>

definition identity_map :: "(string \<times> string) list" where
  "identity_map =
     [(''job_template'', ''name''),
      (''project'', ''name''),
      (''inventory_source'', ''name'')]"

fun update_resources_loop ::
  "env \<Rightarrow> (string \<times> string) list \<Rightarrow> params \<Rightarrow> call list \<Rightarrow> (outcome + params) \<times> call list" where
  "update_resources_loop env [] params tr = (Inr params, tr)"
| "update_resources_loop env ((k, v) # rest) params tr =
     (case params k of
        None \<Rightarrow> (Inl (Uncaught (KeyError (repr_str k))), tr)
      | Some x \<Rightarrow>
          if truthy x then
            (case get_resource env k v x of
               Inl e \<Rightarrow>
                 (case e of
                    NotFound m \<Rightarrow>
                      (Inl (Failed \<lparr>fail_msg = ''Failed to update schedule: '' @ exc_str e,
                                    fail_changed = False\<rparr>),
                       tr @ [Lookup k v x])
                  | _ \<Rightarrow> (Inl (Uncaught (TowerError e)), tr @ [Lookup k v x]))
             | Inr rid \<Rightarrow> update_resources_loop env rest (params(k \<mapsto> rid)) (tr @ [Lookup k v x]))
          else update_resources_loop env rest (params(k := None)) tr)"

definition update_resources :: "env \<Rightarrow> params \<Rightarrow> (outcome + params) \<times> call list" where
  "update_resources env p = update_resources_loop env identity_map p []"

subsection \<open>main\<close>

text \<open>
  \<^verbatim>\<open>main\<close> from the point where the module object exists: building the module,
  \<^verbatim>\<open>tower_auth_config\<close> and \<^verbatim>\<open>tower_check_mode\<close> belong to the host runtime, and in
  check mode the run ends inside \<^verbatim>\<open>tower_check_mode\<close>. What follows is the run once
  they have returned. The \<^verbatim>\<open>try\<close> block at the end is \<open>dispatch\<close>: it catches
  \<^verbatim>\<open>ConnectionError\<close>, \<^verbatim>\<open>BadRequest\<close> and \<^verbatim>\<open>NotFound\<close>.
\<close>

text \<open>How the argument check of \<^verbatim>\<open>strptime\<close> names what it got: the type, or \<^verbatim>\<open>None\<close>.\<close>

definition type_name :: "pyval \<Rightarrow> string" where
  "type_name v =
     (case v of
        PyNone \<Rightarrow> ''None''
      | PyBool b \<Rightarrow> ''bool''
      | PyInt i \<Rightarrow> ''int''
      | PyStr s \<Rightarrow> ''str''
      | PyDict kvs \<Rightarrow> ''dict'')"

definition report :: "tower_exc \<Rightarrow> outcome" where
  "report e =
     (case e of
        OtherTowerError m \<Rightarrow> Uncaught (TowerError e)
      | _ \<Rightarrow> Failed \<lparr>fail_msg = ''Failed to update schedule: '' @ exc_str e, fail_changed = False\<rparr>)"

definition dispatch :: "env \<Rightarrow> pyval \<Rightarrow> params \<Rightarrow> params \<Rightarrow> call list \<Rightarrow> outcome \<times> call list" where
  "dispatch env state json_output params tr =
     (if state = PyStr ''absent'' then
        (case schedule_delete env params of
           Inl e \<Rightarrow> (report e, tr @ [Delete params])
         | Inr changed \<Rightarrow> (Exited (json_output(''changed'' \<mapsto> changed)), tr @ [Delete params]))
      else
        (case schedule_modify env params of
           Inl e \<Rightarrow> (report e, tr @ [Modify params])
         | Inr result \<Rightarrow>
             (Exited (json_output(''id'' \<mapsto> res_id result, ''changed'' \<mapsto> res_changed result)),
              tr @ [Modify params])))"

definition main :: "env \<Rightarrow> params \<Rightarrow> outcome \<times> call list" where
  "main env module_params =
     (let name = dict_get module_params ''name'' in
      case dict_pop module_params ''state'' of
        Inl e \<Rightarrow> (Uncaught e, [])
      | Inr (state, p1) \<Rightarrow>
      (case dict_pop p1 ''frequency'' of
        Inl e \<Rightarrow> (Uncaught e, [])
      | Inr (frequency, p2) \<Rightarrow>
      (case dict_pop p2 ''frequency_unit'' of
        Inl e \<Rightarrow> (Uncaught e, [])
      | Inr (frequency_unit, p3) \<Rightarrow>
      (case dict_pop p3 ''start'' of
        Inl e \<Rightarrow> (Uncaught e, [])
      | Inr (start, p4) \<Rightarrow>
      (let json_output = [''schedule'' \<mapsto> name, ''state'' \<mapsto> state] in
       case update_resources env p4 of
         (Inl out, tr) \<Rightarrow> (out, tr)
       | (Inr params, tr) \<Rightarrow>
       (case on_value (update_fields (yaml_dump env)) params of
         Inl e \<Rightarrow> (Uncaught e, tr)
       | Inr params \<Rightarrow>
       (let params = params(''create_on_missing'' \<mapsto> PyBool True);
            params = params(''enabled'' \<mapsto> PyBool (\<not> state = PyStr ''disabled''))
        in case (case start of
                   PyStr dt_string \<Rightarrow> parse_datetime_string (runtime env) dt_string
                 | _ \<Rightarrow> Inl (Uncaught (TypeError (''strptime() argument 1 must be str, not ''
                                                     @ type_name start)))) of
             Inl out \<Rightarrow> (out, tr)
           | Inr dtstart \<Rightarrow>
           (case build_rrule dtstart frequency frequency_unit of
             Inl e \<Rightarrow> (Uncaught e, tr)
           | Inr rrule \<Rightarrow>
               dispatch env state json_output (params(''rrule'' \<mapsto> PyStr rrule)) tr))))))))"

subsection \<open>Timestamps and runs used in the statements\<close>

text \<open>
  The two forms of a timestamp the spec names, written from the field values: the
  input pattern \<^verbatim>\<open>YYYY-MM-DDTHH:MM:SSZ\<close> and the compact form \<^verbatim>\<open>YYYYMMDDTHHMMSSZ\<close>.
\<close>

definition iso_text :: "nat \<Rightarrow> nat \<Rightarrow> nat \<Rightarrow> nat \<Rightarrow> nat \<Rightarrow> nat \<Rightarrow> string" where
  "iso_text y mo d h mi s =
     pad4 y @ ''-'' @ pad2 mo @ ''-'' @ pad2 d @ ''T'' @ pad2 h @ '':'' @ pad2 mi @ '':'' @ pad2 s @ ''Z''"

definition compact_text :: "nat \<Rightarrow> nat \<Rightarrow> nat \<Rightarrow> nat \<Rightarrow> nat \<Rightarrow> nat \<Rightarrow> string" where
  "compact_text y mo d h mi s =
     pad4 y @ pad2 mo @ pad2 d @ ''T'' @ pad2 h @ pad2 mi @ pad2 s @ ''Z''"

text \<open>
  The parameters of the spec's scenario (a schedule for the project "git project",
  every 30 minutes), with the state and the start left open, and a remote service on
  which the project has the identifier 7 and every schedule call succeeds, run by
  Python 3 on glibc; a second service refuses the connection on every schedule call.
\<close>

definition scenario_params :: "pyval \<Rightarrow> string \<Rightarrow> params" where
  "scenario_params state start =
     [''name'' \<mapsto> PyStr ''nightly'', ''state'' \<mapsto> state, ''description'' \<mapsto> PyStr [],
      ''job_template'' \<mapsto> PyNone, ''job_type'' \<mapsto> PyNone, ''project'' \<mapsto> PyStr ''git project'',
      ''inventory_source'' \<mapsto> PyNone, ''start'' \<mapsto> PyStr start, ''frequency'' \<mapsto> PyInt 30,
      ''frequency_unit'' \<mapsto> PyStr ''minute'', ''extra_data'' \<mapsto> PyNone, ''limit'' \<mapsto> PyStr []]"

definition scenario_env :: env where
  "scenario_env =
     \<lparr>get_resource = (\<lambda>k v x. if x = PyStr ''git project'' then Inr (PyInt 7)
                               else Inl (NotFound ''The requested object could not be found.'')),
      schedule_modify = (\<lambda>ps. Inr \<lparr>res_id = PyInt 42, res_changed = PyBool True\<rparr>),
      schedule_delete = (\<lambda>ps. Inr (PyBool True)),
      yaml_dump = py_repr,
      runtime = \<lparr>interp = Python3, libc_pads_year = False\<rparr>\<rparr>"

definition unreachable_env :: env where
  "unreachable_env =
     scenario_env\<lparr>schedule_modify := (\<lambda>ps. Inl (ConnectionError ''connection refused'')),
                  schedule_delete := (\<lambda>ps. Inl (ConnectionError ''connection refused''))\<rparr>"

text \<open>
  What \<^verbatim>\<open>update_fields\<close> is meant to return: the parameters, with a present
  \<^verbatim>\<open>extra_data\<close> that is not \<^verbatim>\<open>None\<close> replaced by its serialisation.
\<close>

definition extra_data_serialised :: "(pyval \<Rightarrow> string) \<Rightarrow> params \<Rightarrow> params" where
  "extra_data_serialised y d =
     (case d ''extra_data'' of
        None \<Rightarrow> d
      | Some v \<Rightarrow> if v = PyNone then d else d(''extra_data'' \<mapsto> PyStr (y v)))"

text \<open>
  The module's parameters once \<^verbatim>\<open>main\<close> has popped the four it handles itself, and the
  parameters of the schedule call built from the resolved ones.
\<close>

definition popped :: "params \<Rightarrow> params" where
  "popped p = p(''state'' := None, ''frequency'' := None, ''frequency_unit'' := None, ''start'' := None)"

definition call_params :: "env \<Rightarrow> pyval \<Rightarrow> params \<Rightarrow> string \<Rightarrow> params" where
  "call_params env state ps rrule =
     (extra_data_serialised (yaml_dump env) ps)
       (''create_on_missing'' \<mapsto> PyBool True,
        ''enabled'' \<mapsto> PyBool (state \<noteq> PyStr ''disabled''),
        ''rrule'' \<mapsto> PyStr rrule)"

text \<open>
  The scenario with a project the service does not know, and a store holding one
  dictionary with \<^verbatim>\<open>extra_data\<close> set.
\<close>

definition missing_project :: params where
  "missing_project =
     (scenario_params (PyStr ''present'') ''2018-01-01T00:00:00Z'')
       (''project'' \<mapsto> PyStr ''no such project'')"

definition one_dict :: store where
  "one_dict =
     \<lparr>objs = (\<lambda>r. [''name'' \<mapsto> PyStr ''nightly'', ''extra_data'' \<mapsto> PyDict [(''a'', PyInt 1)]]),
      next_ref = 1\<rparr>"

section \<open>Properties\<close>

subsection \<open>The recurrence rule\<close>

lemma str_int_1: "str_int 1 = ''1''"
  by (simp add: str_int_def str_nat.simps digit_char_def)

lemma str_int_30: "str_int 30 = ''30''"
  by (simp add: str_int_def str_nat.simps digit_char_def)

text \<open>
  Claim C1. With the unit \<^verbatim>\<open>runonce\<close> (the spec's "once"), for every anchor string and
  every integer count, \<^verbatim>\<open>build_rrule\<close> returns the anchor clause, the clause
  \<^verbatim>\<open>FREQ=DAILY;INTERVAL=n\<close> and the literal \<^verbatim>\<open>COUNT=1\<close> directly behind it, with no
  separator; for the count 1 this is \<^verbatim>\<open>DTSTART:<anchor> RRULE:FREQ=DAILY;INTERVAL=1COUNT=1\<close>.
\<close>

theorem build_rrule_runonce:
  "build_rrule a (PyInt n) (PyStr ''runonce'') =
     Inr (''DTSTART:'' @ a @ '' RRULE:FREQ=DAILY;INTERVAL='' @ str_int n @ ''COUNT=1'')
   \<and> build_rrule a (PyInt 1) (PyStr ''runonce'') =
     Inr (''DTSTART:'' @ a @ '' RRULE:FREQ=DAILY;INTERVAL=1COUNT=1'')"
  by (simp add: build_rrule_def getitem_def unit_map_def py_str_def str_int_1)

text \<open>
  The unit is the key \<^verbatim>\<open>runonce\<close> of \<^verbatim>\<open>unit_map\<close>; the word "once" itself is no key.
\<close>

lemma build_rrule_once_is_no_key:
  "build_rrule a n (PyStr ''once'') = Inl (KeyError (repr_str ''once''))"
  by (simp add: build_rrule_def getitem_def unit_map_def)

text \<open>
  Claim C5. For every anchor, every positive count and each of the units minute, hour
  and day, \<^verbatim>\<open>build_rrule\<close> returns the anchor clause followed by
  \<^verbatim>\<open>FREQ=<F>;INTERVAL=n\<close> and nothing more, where F is MINUTELY, HOURLY or DAILY.
\<close>

theorem build_rrule_repeating:
  "0 < n \<Longrightarrow> u \<in> {''minute'', ''hour'', ''day''} \<Longrightarrow>
   build_rrule a (PyInt n) (PyStr u) =
     Inr (''DTSTART:'' @ a @ '' RRULE:FREQ=''
          @ (if u = ''minute'' then ''MINUTELY'' else if u = ''hour'' then ''HOURLY'' else ''DAILY'')
          @ '';INTERVAL='' @ str_int n)"
  by (auto simp add: build_rrule_def getitem_def unit_map_def py_str_def)

theorem build_rrule_repeating_witness:
  "(0::int) < 30 \<and> ''minute'' \<in> {''minute'', ''hour'', ''day''} \<and>
   build_rrule ''20180101T000000Z'' (PyInt 30) (PyStr ''minute'') =
     Inr ''DTSTART:20180101T000000Z RRULE:FREQ=MINUTELY;INTERVAL=30''"
  using build_rrule_repeating [of 30 "''minute''" "''20180101T000000Z''"]
  by (simp add: str_int_30)

subsection \<open>Timestamps\<close>


lemma lt10_cases:
  "a < (10::nat) \<Longrightarrow> a = 0 \<or> a = 1 \<or> a = 2 \<or> a = 3 \<or> a = 4 \<or> a = 5 \<or> a = 6 \<or> a = 7 \<or> a = 8 \<or> a = 9"
  by arith

lemma digit_char_digit:
  assumes "a < 10"
  shows "is_digit (digit_char a)" and "digit_val (digit_char a) = a"
    and "digit_char a \<notin> set ''-:TtZz ''"
  using lt10_cases [OF assms]
  by (auto simp add: digit_char_def is_digit_def digit_val_def)

lemma rng_digit:
  "a < 10 \<Longrightarrow> rng lo hi (digit_char a # r) = (if lo \<le> a \<and> a \<le> hi then [([digit_char a], r)] else [])"
  by (simp add: rng_def one_def digit_char_digit)

lemma rng_sep:
  "c \<in> set ''-:TtZz '' \<Longrightarrow> rng lo hi (c # r) = []"
  by (auto simp add: rng_def one_def is_digit_def)

lemma lit_digit:
  "a < 10 \<Longrightarrow> c \<in> set ''-:TtZz '' \<Longrightarrow> lit c (digit_char a # r) = []"
  using digit_char_digit(3) [of a] by (auto simp add: lit_def one_def)

lemma lit_ci_digit:
  "a < 10 \<Longrightarrow> c \<in> set ''-:TtZz '' \<Longrightarrow> d \<in> set ''-:TtZz '' \<Longrightarrow> lit_ci c d (digit_char a # r) = []"
  using digit_char_digit(3) [of a] by (auto simp add: lit_ci_def one_def)

lemma lit_same: "lit c (c # r) = [([c], r)]"
  by (simp add: lit_def one_def)

lemma lit_ci_same: "lit_ci c d (c # r) = [([c], r)]"
  by (simp add: lit_ci_def one_def)

lemma field_M:
  "a < 6 \<Longrightarrow> b < 10 \<Longrightarrow>
   field re_M (lit CHR '':'') (digit_char a # digit_char b # CHR '':'' # rest)
     = [([digit_char a, digit_char b], rest)]"
  by (simp add: field_def re_M_def alt_def seq_def rng_digit lit_digit lit_same)

lemma field_S:
  "a < 6 \<Longrightarrow> b < 10 \<Longrightarrow>
   field re_S (lit_ci CHR ''Z'' CHR ''z'') (digit_char a # digit_char b # CHR ''Z'' # rest)
     = [([digit_char a, digit_char b], rest)]"
  by (simp add: field_def re_S_def alt_def seq_def rng_digit lit_ci_digit lit_ci_same)

lemma field_H:
  "10 * a + b < 24 \<Longrightarrow> b < 10 \<Longrightarrow>
   field re_H (lit CHR '':'') (digit_char a # digit_char b # CHR '':'' # rest)
     = [([digit_char a, digit_char b], rest)]"
  by (auto simp add: field_def re_H_def alt_def seq_def rng_digit lit_digit lit_same)

lemma field_m:
  "1 \<le> 10 * a + b \<Longrightarrow> 10 * a + b \<le> 12 \<Longrightarrow> b < 10 \<Longrightarrow>
   field re_m (lit CHR ''-'') (digit_char a # digit_char b # CHR ''-'' # rest)
     = [([digit_char a, digit_char b], rest)]"
  by (auto simp add: field_def re_m_def alt_def seq_def rng_digit lit_digit lit_same)

lemma field_d:
  "1 \<le> 10 * a + b \<Longrightarrow> 10 * a + b \<le> 31 \<Longrightarrow> b < 10 \<Longrightarrow>
   field re_d (lit_ci CHR ''T'' CHR ''t'') (digit_char a # digit_char b # CHR ''T'' # rest)
     = [([digit_char a, digit_char b], rest)]"
  using digit_char_digit(3) [of a]
  by (auto simp add: field_def re_d_def alt_def seq_def rng_digit lit_ci_digit lit_ci_same lit_def one_def)

lemma field_Y:
  "a < 10 \<Longrightarrow> b < 10 \<Longrightarrow> c < 10 \<Longrightarrow> d < 10 \<Longrightarrow>
   field re_Y (lit CHR ''-'') (digit_char a # digit_char b # digit_char c # digit_char d # CHR ''-'' # rest)
     = [([digit_char a, digit_char b, digit_char c, digit_char d], rest)]"
  by (simp add: field_def re_Y_def seq_def rng_digit lit_same)

lemma py_int_2: "a < 10 \<Longrightarrow> b < 10 \<Longrightarrow> py_int [digit_char a, digit_char b] = 10 * a + b"
  using digit_char_digit(3) [of a]
  by (simp add: py_int_def digit_char_digit)

lemma py_int_4: "a < 10 \<Longrightarrow> b < 10 \<Longrightarrow> c < 10 \<Longrightarrow> d < 10 \<Longrightarrow>
   py_int [digit_char a, digit_char b, digit_char c, digit_char d] = 1000 * a + 100 * b + 10 * c + d"
  using digit_char_digit(3) [of a]
  by (simp add: py_int_def digit_char_digit)


lemma pad2_split: "n < 100 \<Longrightarrow> 10 * (n div 10 mod 10) + n mod 10 = (n::nat)"
  using mod_mult2_eq [of n 10 10] by simp

lemma two_digits: "10 * (n div 10 mod 10) + n mod 10 = (n::nat) mod 100"
  using mod_mult2_eq [of n 10 10] by simp

lemma decimal_combine:
  "10 * a + b = q \<Longrightarrow> 10 * c + d = e \<Longrightarrow> n = 100 * q + e \<Longrightarrow>
   1000 * a + 100 * b + 10 * c + d = (n::nat)"
  by simp

lemma pad4_split:
  assumes "n \<le> 9999"
  shows "1000 * (n div 1000 mod 10) + 100 * (n div 100 mod 10) + 10 * (n div 10 mod 10) + n mod 10 = (n::nat)"
proof -
  have q: "n div 100 < 100" using assms by simp
  have hi: "n div 1000 = n div 100 div 10"
    using div_mult2_eq [of n 100 10] by simp
  have top: "10 * (n div 100 div 10 mod 10) + n div 100 mod 10 = n div 100"
    using two_digits [of "n div 100"] q by simp
  have low: "10 * (n div 10 mod 10) + n mod 10 = n mod 100"
    by (rule two_digits)
  have whole: "n = 100 * (n div 100) + n mod 100"
    by simp
  show ?thesis
    unfolding hi by (rule decimal_combine [OF top low whole])
qed

lemma py_int_pad2: "n < 100 \<Longrightarrow> py_int (pad2 n) = n"
  using py_int_2 [of "n div 10 mod 10" "n mod 10"] pad2_split [of n]
  by (simp add: pad2_def)

lemma py_int_pad4: "n \<le> 9999 \<Longrightarrow> py_int (pad4 n) = n"
  using py_int_4 [of "n div 1000 mod 10" "n div 100 mod 10" "n div 10 mod 10" "n mod 10"]
    pad4_split [of n]
  by (simp add: pad4_def)

lemma field_pad4:
  "field re_Y (lit CHR ''-'') (pad4 n @ CHR ''-'' # rest) = [(pad4 n, rest)]"
  by (simp add: pad4_def field_Y)

lemma field_month:
  "1 \<le> n \<Longrightarrow> n \<le> 12 \<Longrightarrow> field re_m (lit CHR ''-'') (pad2 n @ CHR ''-'' # rest) = [(pad2 n, rest)]"
  using field_m [of "n div 10 mod 10" "n mod 10" rest] pad2_split [of n]
  by (simp add: pad2_def)

lemma field_day:
  "1 \<le> n \<Longrightarrow> n \<le> 31 \<Longrightarrow>
   field re_d (lit_ci CHR ''T'' CHR ''t'') (pad2 n @ CHR ''T'' # rest) = [(pad2 n, rest)]"
  using field_d [of "n div 10 mod 10" "n mod 10" rest] pad2_split [of n]
  by (simp add: pad2_def)

lemma field_hour:
  "n < 24 \<Longrightarrow> field re_H (lit CHR '':'') (pad2 n @ CHR '':'' # rest) = [(pad2 n, rest)]"
  using field_H [of "n div 10 mod 10" "n mod 10" rest] pad2_split [of n]
  by (simp add: pad2_def)

lemma div10_lt6: "n < 60 \<Longrightarrow> n div 10 mod 10 < (6::nat)"
proof -
  assume "n < 60"
  then have "n div 10 < 6" by (simp add: div_less_iff_less_mult)
  then show ?thesis by simp
qed

lemma field_minute:
  "n < 60 \<Longrightarrow> field re_M (lit CHR '':'') (pad2 n @ CHR '':'' # rest) = [(pad2 n, rest)]"
  using field_M [of "n div 10 mod 10" "n mod 10" rest] div10_lt6 [of n]
  by (simp add: pad2_def)

lemma field_second:
  "n < 60 \<Longrightarrow>
   field re_S (lit_ci CHR ''Z'' CHR ''z'') (pad2 n @ CHR ''Z'' # rest) = [(pad2 n, rest)]"
  using field_S [of "n div 10 mod 10" "n mod 10" rest] div10_lt6 [of n]
  by (simp add: pad2_def)

lemma bind_single: "bind [(a, r)] f = f a r"
  by (simp add: bind_def)

lemma days_in_month_le: "1 \<le> m \<Longrightarrow> m \<le> 12 \<Longrightarrow> days_in_month y m \<le> 31"
proof -
  assume "1 \<le> m" "m \<le> 12"
  then have "m = 1 \<or> m = 2 \<or> m = 3 \<or> m = 4 \<or> m = 5 \<or> m = 6 \<or> m = 7 \<or> m = 8
      \<or> m = 9 \<or> m = 10 \<or> m = 11 \<or> m = 12"
    by arith
  then show ?thesis
    by (elim disjE) (simp_all add: days_in_month_def)
qed

lemma iso_regex_iso_text:
  assumes "1 \<le> mo" "mo \<le> 12" "1 \<le> d" "d \<le> 31" "h < 24" "mi < 60" "s < 60"
  shows "iso_regex (iso_text y mo d h mi s) = [((pad4 y, pad2 mo, pad2 d, pad2 h, pad2 mi, pad2 s), [])]"
  using assms
  by (simp add: iso_regex_def iso_text_def field_pad4 field_month field_day field_hour
      field_minute field_second bind_single)

lemma strptime_iso_text:
  assumes "1 \<le> y" "y \<le> 9999" "1 \<le> mo" "mo \<le> 12" "1 \<le> d" "d \<le> days_in_month y mo"
    "h < 24" "mi < 60" "s < 60"
  shows "strptime (iso_text y mo d h mi s)
     = Inr \<lparr>dt_year = y, dt_month = mo, dt_day = d, dt_hour = h, dt_minute = mi, dt_second = s\<rparr>"
proof -
  have d31: "d \<le> 31" using assms days_in_month_le [of mo y] by simp
  have "iso_regex (iso_text y mo d h mi s) = [((pad4 y, pad2 mo, pad2 d, pad2 h, pad2 mi, pad2 s), [])]"
    using assms d31 by (simp add: iso_regex_iso_text)
  then show ?thesis
    using assms d31 by (simp add: strptime_def py_int_pad2 py_int_pad4)
qed

text \<open>
  The year as \<^verbatim>\<open>strftime\<close> writes it: four digits whenever the interpreter takes the year
  and the C library pads it or the year has four digits anyway.
\<close>

lemma str_nat_pad4:
  assumes "1000 \<le> n" "n \<le> 9999"
  shows "str_nat n = pad4 n"
proof -
  have d1: "n div 10 div 10 = n div 100" and d2: "n div 100 div 10 = n div 1000"
    using div_mult2_eq [of n 10 10] div_mult2_eq [of n 100 10] by simp_all
  have big: "\<not> n < 10" "\<not> n div 10 < 10" "\<not> n div 100 < 10" "n div 1000 < 10"
    using assms by simp_all
  have "str_nat n = str_nat (n div 10) @ [digit_char (n mod 10)]"
    using big(1) by (subst str_nat.simps) simp
  also have "str_nat (n div 10) = str_nat (n div 100) @ [digit_char (n div 10 mod 10)]"
    using big(2) by (subst str_nat.simps) (simp add: d1)
  also have "str_nat (n div 100) = str_nat (n div 1000) @ [digit_char (n div 100 mod 10)]"
    using big(3) by (subst str_nat.simps) (simp add: d2)
  also have "str_nat (n div 1000) = [digit_char (n div 1000)]"
    using big(4) by (subst str_nat.simps) simp
  finally show ?thesis
    using big(4) by (simp add: pad4_def)
qed

lemma strftime_four_digits:
  assumes "interp rt = Python2 \<longrightarrow> 1900 \<le> dt_year dt"
    and "\<not> libc_pads_year rt \<longrightarrow> 1000 \<le> dt_year dt"
    and "dt_year dt \<le> 9999"
  shows "strftime rt dt =
     Inr (pad4 (dt_year dt) @ pad2 (dt_month dt) @ pad2 (dt_day dt) @ ''T''
          @ pad2 (dt_hour dt) @ pad2 (dt_minute dt) @ pad2 (dt_second dt) @ ''Z'')"
  using assms str_nat_pad4 [of "dt_year dt"]
  by (auto simp add: strftime_def)

text \<open>
  Claim C3, as the code has it. A timestamp of the pattern \<^verbatim>\<open>YYYY-MM-DDTHH:MM:SSZ\<close> that
  denotes a date of the calendar (a year from 1 to 9999, a month from 1 to 12, a day the
  month has) and a time of day is accepted by \<^verbatim>\<open>parse_datetime_string\<close> and returned with
  the same fields in the compact form \<^verbatim>\<open>YYYYMMDDTHHMMSSZ\<close>, provided the year is one that
  \<^verbatim>\<open>strftime\<close> writes with four digits: from 1900 on under Python 2, and from 1000 on
  where the C library does not pad the year. From 1900 on this holds on every runtime;
  \<^verbatim>\<open>2018-01-01T00:00:00Z\<close> becomes \<^verbatim>\<open>20180101T000000Z\<close>.
\<close>

theorem parse_datetime_string_valid:
  assumes "1 \<le> y" "y \<le> 9999" "1 \<le> mo" "mo \<le> 12" "1 \<le> d" "d \<le> days_in_month y mo"
    "h < 24" "mi < 60" "s < 60"
    and "interp rt = Python2 \<longrightarrow> 1900 \<le> y" and "\<not> libc_pads_year rt \<longrightarrow> 1000 \<le> y"
  shows "parse_datetime_string rt (iso_text y mo d h mi s) = Inr (compact_text y mo d h mi s)"
  using strptime_iso_text [OF assms(1-9)] assms(2,10,11)
  by (simp add: parse_datetime_string_def strftime_four_digits compact_text_def)

theorem parse_datetime_string_valid_witness:
  "(1::nat) \<le> 2018 \<and> (2018::nat) \<le> 9999 \<and> (1::nat) \<le> days_in_month 2018 1 \<and>
   interp \<lparr>interp = Python2, libc_pads_year = False\<rparr> = Python2 \<and> (1900::nat) \<le> 2018 \<and>
   \<not> libc_pads_year \<lparr>interp = Python2, libc_pads_year = False\<rparr> \<and> (1000::nat) \<le> 2018 \<and>
   iso_text 2018 1 1 0 0 0 = ''2018-01-01T00:00:00Z'' \<and>
   parse_datetime_string \<lparr>interp = Python2, libc_pads_year = False\<rparr> ''2018-01-01T00:00:00Z''
     = Inr ''20180101T000000Z''"
  using parse_datetime_string_valid [of 2018 1 1 0 0 0 "\<lparr>interp = Python2, libc_pads_year = False\<rparr>"]
  by (simp add: iso_text_def compact_text_def pad2_def pad4_def digit_char_def days_in_month_def)

subsection \<open>Timestamps the parser accepts or rejects\<close>

lemmas regex_defs = iso_regex_def bind_def field_def re_Y_def re_m_def re_d_def re_H_def re_M_def
  re_S_def alt_def seq_def rng_def lit_def lit_ci_def one_def is_digit_def digit_val_def

lemma strptime_0999:
  "strptime ''0999-01-01T00:00:00Z'' =
     Inr \<lparr>dt_year = 999, dt_month = 1, dt_day = 1, dt_hour = 0, dt_minute = 0, dt_second = 0\<rparr>"
  by (simp add: strptime_def regex_defs py_int_def days_in_month_def is_leap_def)

lemma strptime_1899:
  "strptime ''1899-12-31T23:59:59Z'' =
     Inr \<lparr>dt_year = 1899, dt_month = 12, dt_day = 31, dt_hour = 23, dt_minute = 59, dt_second = 59\<rparr>"
  by (simp add: strptime_def regex_defs py_int_def days_in_month_def is_leap_def)

lemma str_nat_999: "str_nat 999 = ''999''"
  by (simp add: str_nat.simps digit_char_def)

lemma str_nat_1899: "str_nat 1899 = ''1899''"
  by (simp add: str_nat.simps digit_char_def)

text \<open>
  Claim C3 as stated fails below the year 1900. On Python 3 with glibc the timestamp
  \<^verbatim>\<open>0999-01-01T00:00:00Z\<close> comes back as \<^verbatim>\<open>9990101T000000Z\<close>, one digit short of the
  compact form; on Python 2 the timestamp \<^verbatim>\<open>1899-12-31T23:59:59Z\<close> is valid and is
  refused.
\<close>

theorem year_below_1900_not_compact:
  "parse_datetime_string \<lparr>interp = Python3, libc_pads_year = False\<rparr> ''0999-01-01T00:00:00Z''
     = Inr ''9990101T000000Z'' \<and>
   compact_text 999 1 1 0 0 0 = ''09990101T000000Z'' \<and>
   parse_datetime_string \<lparr>interp = Python2, libc_pads_year = False\<rparr> ''1899-12-31T23:59:59Z''
     = Inl (Failed \<lparr>fail_msg = ''Failed to update schedule, unable to parse datetime 1899-12-31T23:59:59Z: ''
                       @ ''year=1899 is before 1900; the datetime strftime() methods require year >= 1900'',
                     fail_changed = False\<rparr>)"
  by (simp add: parse_datetime_string_def strptime_0999 strptime_1899 strftime_def str_nat_999
      str_nat_1899 compact_text_def pad2_def pad4_def digit_char_def)

lemma strptime_lenient:
  "strptime ''2018-1-1T0:0:0Z'' =
     Inr \<lparr>dt_year = 2018, dt_month = 1, dt_day = 1, dt_hour = 0, dt_minute = 0, dt_second = 0\<rparr>"
  by (simp add: strptime_def regex_defs py_int_def days_in_month_def is_leap_def)

lemma strptime_2018:
  "strptime ''2018-01-01T00:00:00Z'' =
     Inr \<lparr>dt_year = 2018, dt_month = 1, dt_day = 1, dt_hour = 0, dt_minute = 0, dt_second = 0\<rparr>"
  by (simp add: strptime_def regex_defs py_int_def days_in_month_def is_leap_def)

text \<open>
  Claim C4 asks that every input that does not match \<^verbatim>\<open>YYYY-MM-DDTHH:MM:SSZ\<close> exactly is
  rejected, and the module's documentation says the same ("The module will fail if
  dates are provided in any other format"). The library's pattern also takes fields of
  one digit: on every runtime \<^verbatim>\<open>2018-1-1T0:0:0Z\<close> is accepted and comes back as
  \<^verbatim>\<open>20180101T000000Z\<close>.
\<close>

theorem parse_datetime_string_lenient:
  "parse_datetime_string rt ''2018-1-1T0:0:0Z'' = Inr ''20180101T000000Z''"
  by (simp add: parse_datetime_string_def strptime_lenient strftime_four_digits
      pad2_def pad4_def digit_char_def)

text \<open>
  What does hold: a rejected input is reported with the input and the library's reason
  in the message, and the three inputs the spec names are rejected.
\<close>

lemma parse_failure_shape:
  "parse_datetime_string rt s = Inl out \<Longrightarrow>
   \<exists>reason.
     out = Failed \<lparr>fail_msg = ''Failed to update schedule, unable to parse datetime '' @ s @ '': '' @ reason,
                   fail_changed = False\<rparr>"
  by (auto simp add: parse_datetime_string_def split: sum.splits)

lemma parse_no_Z:
  "parse_datetime_string rt ''2018-01-01T00:00:00'' =
     Inl (Failed \<lparr>fail_msg = ''Failed to update schedule, unable to parse datetime 2018-01-01T00:00:00: ''
                     @ ''time data '' @ repr_str ''2018-01-01T00:00:00''
                     @ '' does not match format '' @ repr_str iso_format,
                   fail_changed = False\<rparr>)"
  by (simp add: parse_datetime_string_def strptime_def regex_defs)

lemma parse_slashes:
  "parse_datetime_string rt ''2018/01/01T00:00:00Z'' =
     Inl (Failed \<lparr>fail_msg = ''Failed to update schedule, unable to parse datetime 2018/01/01T00:00:00Z: ''
                     @ ''time data '' @ repr_str ''2018/01/01T00:00:00Z''
                     @ '' does not match format '' @ repr_str iso_format,
                   fail_changed = False\<rparr>)"
  by (simp add: parse_datetime_string_def strptime_def regex_defs)

lemma parse_month13:
  "parse_datetime_string rt ''2018-13-01T00:00:00Z'' =
     Inl (Failed \<lparr>fail_msg = ''Failed to update schedule, unable to parse datetime 2018-13-01T00:00:00Z: ''
                     @ ''time data '' @ repr_str ''2018-13-01T00:00:00Z''
                     @ '' does not match format '' @ repr_str iso_format,
                   fail_changed = False\<rparr>)"
  by (simp add: parse_datetime_string_def strptime_def regex_defs)


subsection \<open>update\_fields on the store\<close>

lemma update_fields_run:
  "update_fields y st p =
     Inr (st\<lparr>objs := (objs st)
              (next_ref st := extra_data_serialised y (objs st p),
               Suc (next_ref st) :=
                 (if dict_get (objs st p) ''extra_data'' \<noteq> PyNone
                  then [''extra_data'' \<mapsto> PyStr (y (dict_get (objs st p) ''extra_data''))]
                  else Map.empty)),
             next_ref := Suc (Suc (next_ref st))\<rparr>,
          next_ref st)"
  by (auto simp add: update_fields_def st_copy_def st_new_def field_map_def st_setitem_def
      st_update_def dict_get_def extra_data_serialised_def Let_def fun_upd_twist
      split: option.splits)

text \<open>
  Claim C10. For every dictionary \<open>p\<close> in use, \<^verbatim>\<open>update_fields\<close> returns (it raises
  nothing) a dictionary that is a new object; it holds what \<open>p\<close> holds on every key except
  \<^verbatim>\<open>extra_data\<close>; an \<^verbatim>\<open>extra_data\<close> that is present and not \<^verbatim>\<open>None\<close> is replaced by the
  string \<^verbatim>\<open>yaml.dump\<close> gives for it, and otherwise the result equals \<open>p\<close>. The dictionary
  \<open>p\<close>, like every dictionary that existed before the call, is left as it was.
\<close>

theorem update_fields_frame:
  assumes "p < next_ref st"
  shows "(\<exists>st' r. update_fields y st p = Inr (st', r)) \<and>
         (\<forall>st' r. update_fields y st p = Inr (st', r) \<longrightarrow>
            r \<noteq> p \<and> objs st' p = objs st p \<and> (\<forall>q. q < next_ref st \<longrightarrow> objs st' q = objs st q) \<and>
            objs st' r = extra_data_serialised y (objs st p) \<and>
            (\<forall>k. k \<noteq> ''extra_data'' \<longrightarrow> objs st' r k = objs st p k))"
  using assms
  by (auto simp add: update_fields_run extra_data_serialised_def split: option.splits)

lemma on_value_update_fields:
  "on_value (update_fields y) d = Inr (extra_data_serialised y d)"
  by (simp add: on_value_def update_fields_run)

subsection \<open>Traces and the shape of a run\<close>

lemma update_resources_loop_lookups:
  "\<forall>c\<in>set tr. is_lookup c \<Longrightarrow> \<forall>c\<in>set (snd (update_resources_loop env ks ps tr)). is_lookup c"
proof (induction ks arbitrary: ps tr)
  case Nil
  then show ?case by simp
next
  case (Cons kv ks)
  obtain k v where kv: "kv = (k, v)" by (cases kv)
  have step: "\<forall>c\<in>set (snd (update_resources_loop env ks (ps(k \<mapsto> rid)) (tr @ [Lookup k v x]))). is_lookup c"
    for rid x
    using Cons.prems by (intro Cons.IH) simp
  have skip: "\<forall>c\<in>set (snd (update_resources_loop env ks (ps(k := None)) tr)). is_lookup c"
    using Cons.prems by (rule Cons.IH)
  show ?case
    using Cons.prems step skip
    by (simp add: kv split: option.splits sum.splits tower_exc.splits)
qed

lemma update_resources_lookups:
  "update_resources env p = (r, tr) \<Longrightarrow> c \<in> set tr \<Longrightarrow> is_lookup c"
  using update_resources_loop_lookups [of "[]" env identity_map p]
  by (simp add: update_resources_def)

lemma update_resources_loop_failed:
  "fst (update_resources_loop env ks ps tr) = Inl (Failed f) \<Longrightarrow> \<not> fail_changed f"
proof (induction ks arbitrary: ps tr)
  case Nil
  then show ?case by simp
next
  case (Cons kv ks)
  obtain k v where kv: "kv = (k, v)" by (cases kv)
  show ?case
    using Cons.prems Cons.IH
    by (auto simp add: kv split: option.splits sum.splits tower_exc.splits if_splits)
qed

lemma lookups_no_calls:
  "\<forall>c\<in>set tr. is_lookup c \<Longrightarrow> modify_calls tr = [] \<and> delete_calls tr = []"
  by (induction tr rule: modify_calls.induct) auto

lemma modify_calls_append: "modify_calls (tr @ tr') = modify_calls tr @ modify_calls tr'"
  by (induction tr rule: modify_calls.induct) auto

lemma delete_calls_append: "delete_calls (tr @ tr') = delete_calls tr @ delete_calls tr'"
  by (induction tr rule: delete_calls.induct) auto

lemma report_failed: "report e = Failed f \<Longrightarrow> \<not> fail_changed f"
  by (auto simp add: report_def split: tower_exc.splits)

lemma report_not_exited: "report e \<noteq> Exited out"
  by (auto simp add: report_def split: tower_exc.splits)

lemma main_run:
  assumes "p ''state'' = Some state" "p ''frequency'' = Some fr" "p ''frequency_unit'' = Some fu"
    "p ''start'' = Some start"
  shows "main env p =
     (case update_resources env (popped p) of
        (Inl out, tr) \<Rightarrow> (out, tr)
      | (Inr ps, tr) \<Rightarrow>
          (case (case start of
                   PyStr dt_string \<Rightarrow> parse_datetime_string (runtime env) dt_string
                 | _ \<Rightarrow> Inl (Uncaught (TypeError (''strptime() argument 1 must be str, not ''
                                                     @ type_name start)))) of
             Inl out \<Rightarrow> (out, tr)
           | Inr dtstart \<Rightarrow>
               (case build_rrule dtstart fr fu of
                  Inl e \<Rightarrow> (Uncaught e, tr)
                | Inr rrule \<Rightarrow>
                    dispatch env state [''schedule'' \<mapsto> dict_get p ''name'', ''state'' \<mapsto> state]
                      (call_params env state ps rrule) tr)))"
  using assms
  by (simp add: main_def dict_pop_def popped_def call_params_def on_value_update_fields Let_def
      split: prod.splits sum.splits)

lemma main_no_keys:
  assumes "p ''state'' = None \<or> p ''frequency'' = None \<or> p ''frequency_unit'' = None \<or> p ''start'' = None"
  shows "snd (main env p) = [] \<and> (\<exists>e. fst (main env p) = Uncaught e)"
  using assms
  by (auto simp add: main_def dict_pop_def Let_def split: option.splits)



lemma dispatch_trace:
  "snd (dispatch env st js q tr) = tr @ [if st = PyStr ''absent'' then Delete q else Modify q]"
  by (simp add: dispatch_def split: sum.splits)

lemma dispatch_failed: "fst (dispatch env st js q tr) = Failed f \<Longrightarrow> \<not> fail_changed f"
  by (auto simp add: dispatch_def split: sum.splits if_splits dest: report_failed)

lemma dispatch_exited_absent:
  "fst (dispatch env (PyStr ''absent'') [''schedule'' \<mapsto> n, ''state'' \<mapsto> st'] q tr) = Exited out \<Longrightarrow>
   out ''id'' = None"
  by (auto simp add: dispatch_def report_not_exited split: sum.splits)

lemma dispatch_exited_other:
  "st \<noteq> PyStr ''absent'' \<Longrightarrow> fst (dispatch env st js q tr) = Exited out \<Longrightarrow>
   \<exists>res. schedule_modify env q = Inr res \<and> out ''id'' = Some (res_id res)"
  by (auto simp add: dispatch_def report_not_exited split: sum.splits)

lemma update_resources_loop_not_exited:
  "fst (update_resources_loop env ks ps tr) \<noteq> Inl (Exited out)"
proof (induction ks arbitrary: ps tr)
  case Nil
  then show ?case by simp
next
  case (Cons kv ks)
  obtain k v where kv: "kv = (k, v)" by (cases kv)
  show ?case
    using Cons.IH
    by (simp add: kv split: option.splits sum.splits tower_exc.splits)
qed

lemma start_not_str:
  "\<forall>s. start \<noteq> PyStr s \<Longrightarrow> (case start of PyStr s \<Rightarrow> f s | _ \<Rightarrow> g) = g"
  by (cases start) auto

lemma main_shape:
  assumes keys: "p ''state'' = Some state" "p ''frequency'' = Some fr"
    "p ''frequency_unit'' = Some fu" "p ''start'' = Some start"
  obtains (early) "\<forall>c\<in>set (snd (main env p)). is_lookup c"
      "\<forall>out. fst (main env p) \<noteq> Exited out"
      "\<forall>f. fst (main env p) = Failed f \<longrightarrow> \<not> fail_changed f"
  | (dispatched) ps tr s dtstart rrule where
      "update_resources env (popped p) = (Inr ps, tr)" "\<forall>c\<in>set tr. is_lookup c"
      "start = PyStr s" "parse_datetime_string (runtime env) s = Inr dtstart"
      "build_rrule dtstart fr fu = Inr rrule"
      "main env p = dispatch env state [''schedule'' \<mapsto> dict_get p ''name'', ''state'' \<mapsto> state]
                      (call_params env state ps rrule) tr"
proof -
  obtain r tr where ur: "update_resources env (popped p) = (r, tr)"
    by (cases "update_resources env (popped p)")
  have lk: "\<forall>c\<in>set tr. is_lookup c"
    using update_resources_lookups [OF ur] by blast
  show thesis
  proof (cases r)
    case (Inl out)
    have m: "main env p = (out, tr)"
      by (simp add: main_run [OF keys] ur Inl)
    have "fst (update_resources_loop env identity_map (popped p) []) = Inl out"
      using ur Inl by (simp add: update_resources_def)
    then have "\<forall>o'. out \<noteq> Exited o'" "\<forall>f. out = Failed f \<longrightarrow> \<not> fail_changed f"
      using update_resources_loop_not_exited update_resources_loop_failed by metis+
    then show thesis using early m lk by simp
  next
    case (Inr ps)
    show thesis
    proof (cases "\<exists>s. start = PyStr s")
      case False
      then have "\<exists>e. main env p = (Uncaught e, tr)"
        by (simp add: main_run [OF keys] ur Inr start_not_str)
      then show thesis using early lk by auto
    next
      case True
      then obtain s where s: "start = PyStr s" by blast
      show thesis
      proof (cases "parse_datetime_string (runtime env) s")
        case (Inl out)
        have m: "main env p = (out, tr)"
          by (simp add: main_run [OF keys] ur Inr s Inl)
        obtain f where "out = Failed f" "\<not> fail_changed f"
          using parse_failure_shape [OF Inl] by auto
        then show thesis using early m lk by simp
      next
        case dt: (Inr dtstart)
        show thesis
        proof (cases "build_rrule dtstart fr fu")
          case (Inl e)
          have "main env p = (Uncaught e, tr)"
            by (simp add: main_run [OF keys] ur Inr s dt Inl)
          then show thesis using early lk by simp
        next
          case rr: (Inr rrule)
          have "main env p = dispatch env state [''schedule'' \<mapsto> dict_get p ''name'', ''state'' \<mapsto> state]
                      (call_params env state ps rrule) tr"
            by (simp add: main_run [OF keys] ur Inr s dt rr)
          then show thesis
            using dispatched [OF _ lk s dt rr] ur Inr by simp
        qed
      qed
    qed
  qed
qed

subsection \<open>Failure reports and the enabled flag\<close>

lemma main_missing_key:
  assumes "p ''state'' = None \<or> p ''frequency'' = None \<or> p ''frequency_unit'' = None \<or> p ''start'' = None"
  shows "snd (main env p) = []" and "\<exists>e. fst (main env p) = Uncaught e"
  using main_no_keys [OF assms] by simp_all

text \<open>
  Claim C9. No failure report carries \<^verbatim>\<open>changed=true\<close>: whenever \<^verbatim>\<open>parse_datetime_string\<close>,
  \<^verbatim>\<open>update_resources\<close> or the whole run ends in \<^verbatim>\<open>fail_json\<close> (a timestamp that does not
  parse, a lookup that finds nothing, a connection, bad-request or not-found error of the
  schedule call), the report has \<^verbatim>\<open>changed=false\<close>.
\<close>

theorem failure_reports_unchanged:
  "(parse_datetime_string rt s = Inl (Failed f) \<longrightarrow> \<not> fail_changed f) \<and>
   (fst (update_resources env p) = Inl (Failed f) \<longrightarrow> \<not> fail_changed f) \<and>
   (fst (main env p) = Failed f \<longrightarrow> \<not> fail_changed f)"
proof (intro conjI impI)
  assume "parse_datetime_string rt s = Inl (Failed f)"
  then show "\<not> fail_changed f"
    using parse_failure_shape by fastforce
next
  assume "fst (update_resources env p) = Inl (Failed f)"
  then show "\<not> fail_changed f"
    using update_resources_loop_failed by (simp add: update_resources_def)
next
  assume failed: "fst (main env p) = Failed f"
  show "\<not> fail_changed f"
  proof (cases "p ''state'' = None \<or> p ''frequency'' = None \<or> p ''frequency_unit'' = None \<or> p ''start'' = None")
    case True
    then show ?thesis using main_missing_key(2) [OF True, of env] failed by simp
  next
    case False
    then obtain state fr fu start where keys: "p ''state'' = Some state" "p ''frequency'' = Some fr"
      "p ''frequency_unit'' = Some fu" "p ''start'' = Some start"
      by auto
    show ?thesis
    proof (rule main_shape [OF keys, of env], goal_cases)
      case 1
      then show ?thesis using failed by simp
    next
      case (2 ps tr s dtstart rrule)
      then show ?thesis using failed dispatch_failed by metis
    qed
  qed
qed

text \<open>
  Claim C7. In every run, every create-or-update or delete call that goes out carries
  \<^verbatim>\<open>enabled\<close> equal to "the state is not \<^verbatim>\<open>disabled\<close>": false for \<^verbatim>\<open>disabled\<close>, true for
  \<^verbatim>\<open>present\<close> and \<^verbatim>\<open>absent\<close>, whatever the other parameters are.
\<close>

theorem enabled_flag:
  assumes "p ''state'' = Some state"
  shows "\<forall>q\<in>set (modify_calls (snd (main env p)) @ delete_calls (snd (main env p))).
           q ''enabled'' = Some (PyBool (state \<noteq> PyStr ''disabled''))"
proof (cases "p ''frequency'' = None \<or> p ''frequency_unit'' = None \<or> p ''start'' = None")
  case True
  then have "snd (main env p) = []"
    using main_missing_key(1) [of p env] by blast
  then show ?thesis by simp
next
  case False
  then obtain fr fu start where keys: "p ''state'' = Some state" "p ''frequency'' = Some fr"
    "p ''frequency_unit'' = Some fu" "p ''start'' = Some start"
    using assms by auto
  show ?thesis
  proof (rule main_shape [OF keys, of env], goal_cases)
    case 1
    then show ?thesis using lookups_no_calls by fastforce
  next
    case (2 ps tr s dtstart rrule)
    have "snd (main env p) = tr @ [if state = PyStr ''absent'' then Delete (call_params env state ps rrule)
                                    else Modify (call_params env state ps rrule)]"
      using 2(6) by (simp add: dispatch_trace)
    then show ?thesis
      using lookups_no_calls [OF 2(2)]
      by (simp add: modify_calls_append delete_calls_append call_params_def)
  qed
qed

subsection \<open>Dispatch, rejected timestamps and failed lookups\<close>

lemma main_dispatched:
  assumes "p ''state'' = Some state" "p ''frequency'' = Some fr" "p ''frequency_unit'' = Some fu"
    "p ''start'' = Some (PyStr s)" "update_resources env (popped p) = (Inr ps, tr)"
    "parse_datetime_string (runtime env) s = Inr dtstart" "build_rrule dtstart fr fu = Inr rrule"
  shows "main env p = dispatch env state [''schedule'' \<mapsto> dict_get p ''name'', ''state'' \<mapsto> state]
                        (call_params env state ps rrule) tr"
  using assms by (simp add: main_run)

text \<open>
  Claim C8. With the state \<^verbatim>\<open>absent\<close> a run never calls create-or-update, and an output
  record has no \<^verbatim>\<open>id\<close> and comes after exactly one delete call. With any other state a
  run never calls delete, and an output record carries the \<^verbatim>\<open>id\<close> the one
  create-or-update call returned. Once the targets are resolved, the timestamp parsed
  and the rule built, the run makes exactly one schedule call: delete for \<^verbatim>\<open>absent\<close>,
  create-or-update otherwise.
\<close>

theorem dispatch_by_state:
  assumes st: "p ''state'' = Some state"
  shows "(state = PyStr ''absent'' \<longrightarrow>
            modify_calls (snd (main env p)) = [] \<and>
            (\<forall>out. fst (main env p) = Exited out \<longrightarrow>
               out ''id'' = None \<and> (\<exists>q. delete_calls (snd (main env p)) = [q]))) \<and>
         (state \<noteq> PyStr ''absent'' \<longrightarrow>
            delete_calls (snd (main env p)) = [] \<and>
            (\<forall>out. fst (main env p) = Exited out \<longrightarrow>
               (\<exists>q res. modify_calls (snd (main env p)) = [q] \<and> schedule_modify env q = Inr res \<and>
                  out ''id'' = Some (res_id res)))) \<and>
         (\<forall>fr fu s ps tr dtstart rrule.
            p ''frequency'' = Some fr \<and> p ''frequency_unit'' = Some fu \<and> p ''start'' = Some (PyStr s) \<and>
            update_resources env (popped p) = (Inr ps, tr) \<and>
            parse_datetime_string (runtime env) s = Inr dtstart \<and> build_rrule dtstart fr fu = Inr rrule \<longrightarrow>
            (if state = PyStr ''absent''
             then delete_calls (snd (main env p)) = [call_params env state ps rrule]
             else modify_calls (snd (main env p)) = [call_params env state ps rrule]))"
proof -
  have reached: "if state = PyStr ''absent''
             then delete_calls (snd (main env p)) = [call_params env state ps rrule]
             else modify_calls (snd (main env p)) = [call_params env state ps rrule]"
    if "p ''frequency'' = Some fr" "p ''frequency_unit'' = Some fu" "p ''start'' = Some (PyStr s)"
      "update_resources env (popped p) = (Inr ps, tr)"
      "parse_datetime_string (runtime env) s = Inr dtstart" "build_rrule dtstart fr fu = Inr rrule"
    for fr fu s ps tr dtstart rrule
  proof -
    have "\<forall>c\<in>set tr. is_lookup c"
      using update_resources_lookups [OF that(4)] by blast
    then have "modify_calls tr = [] \<and> delete_calls tr = []"
      by (rule lookups_no_calls)
    then show ?thesis
      by (simp add: main_dispatched [OF st that] dispatch_trace modify_calls_append delete_calls_append)
  qed
  have states: "(state = PyStr ''absent'' \<longrightarrow>
            modify_calls (snd (main env p)) = [] \<and>
            (\<forall>out. fst (main env p) = Exited out \<longrightarrow>
               out ''id'' = None \<and> (\<exists>q. delete_calls (snd (main env p)) = [q]))) \<and>
         (state \<noteq> PyStr ''absent'' \<longrightarrow>
            delete_calls (snd (main env p)) = [] \<and>
            (\<forall>out. fst (main env p) = Exited out \<longrightarrow>
               (\<exists>q res. modify_calls (snd (main env p)) = [q] \<and> schedule_modify env q = Inr res \<and>
                  out ''id'' = Some (res_id res))))"
  proof (cases "p ''frequency'' = None \<or> p ''frequency_unit'' = None \<or> p ''start'' = None")
    case True
    then have "snd (main env p) = []" "\<exists>e. fst (main env p) = Uncaught e"
      using main_missing_key [of p env] by blast+
    then show ?thesis by auto
  next
    case False
    then obtain fr fu start where keys: "p ''state'' = Some state" "p ''frequency'' = Some fr"
      "p ''frequency_unit'' = Some fu" "p ''start'' = Some start"
      using st by auto
    show ?thesis
    proof (rule main_shape [OF keys, of env], goal_cases)
      case 1
      then show ?thesis using lookups_no_calls by fastforce
    next
      case (2 ps tr s dtstart rrule)
      have calls: "modify_calls tr = []" "delete_calls tr = []"
        using lookups_no_calls [OF 2(2)] by simp_all
      show ?thesis
        using 2(6) calls dispatch_exited_absent dispatch_exited_other
        by (auto simp add: dispatch_trace modify_calls_append delete_calls_append)
    qed
  qed
  show ?thesis
    using states reached by blast
qed

text \<open>
  Claim C2, as the code has it. The lookups of \<^verbatim>\<open>update_resources\<close> run before the
  timestamp is parsed. When \<^verbatim>\<open>parse_datetime_string\<close> rejects the start timestamp, the
  run makes no create-or-update and no delete call, its only remote calls are lookups,
  and it does not end with an output record; when the targets were resolved, it ends
  with the failure of \<^verbatim>\<open>parse_datetime_string\<close>, which has \<^verbatim>\<open>changed=false\<close>, and its
  trace is the trace of the lookups.
\<close>

theorem rejected_start:
  assumes start: "p ''start'' = Some (PyStr s)" and rejected: "parse_datetime_string (runtime env) s = Inl out"
  shows "modify_calls (snd (main env p)) = [] \<and> delete_calls (snd (main env p)) = [] \<and>
         (\<forall>c\<in>set (snd (main env p)). is_lookup c) \<and>
         (\<forall>out'. fst (main env p) \<noteq> Exited out') \<and>
         (\<exists>f. out = Failed f \<and> \<not> fail_changed f) \<and>
         (\<forall>state fr fu ps tr.
            p ''state'' = Some state \<and> p ''frequency'' = Some fr \<and> p ''frequency_unit'' = Some fu \<and>
            update_resources env (popped p) = (Inr ps, tr) \<longrightarrow> main env p = (out, tr))"
proof -
  have lookups: "(\<forall>c\<in>set (snd (main env p)). is_lookup c) \<and> (\<forall>out'. fst (main env p) \<noteq> Exited out')"
  proof (cases "p ''state'' = None \<or> p ''frequency'' = None \<or> p ''frequency_unit'' = None")
    case True
    then have "snd (main env p) = []" "\<exists>e. fst (main env p) = Uncaught e"
      using main_missing_key [of p env] by blast+
    then show ?thesis by auto
  next
    case False
    then obtain state fr fu where keys: "p ''state'' = Some state" "p ''frequency'' = Some fr"
      "p ''frequency_unit'' = Some fu" "p ''start'' = Some (PyStr s)"
      using start by auto
    show ?thesis
    proof (rule main_shape [OF keys, of env], goal_cases)
      case 1
      then show ?thesis by simp
    next
      case (2 ps tr s' dtstart rrule)
      then show ?thesis using rejected by simp
    qed
  qed
  then have calls: "modify_calls (snd (main env p)) = [] \<and> delete_calls (snd (main env p)) = []"
    using lookups_no_calls by blast
  have failed: "\<exists>f. out = Failed f \<and> \<not> fail_changed f"
    using parse_failure_shape [OF rejected] by auto
  have resolved: "main env p = (out, tr)"
    if "p ''state'' = Some state" "p ''frequency'' = Some fr" "p ''frequency_unit'' = Some fu"
      "update_resources env (popped p) = (Inr ps, tr)" for state fr fu ps tr
    using that start rejected by (simp add: main_run)
  show ?thesis
    using lookups calls failed resolved by blast
qed

text \<open>
  Claim C6. When the one target that is set (job template, project or inventory source;
  the other two are empty) is not found by the lookup, the run ends in \<^verbatim>\<open>fail_json\<close> with
  the text of the \<^verbatim>\<open>NotFound\<close> exception behind "Failed to update schedule: " and
  \<^verbatim>\<open>changed=false\<close>, and the failed lookup is the only remote call of the run: no
  create-or-update and no delete call follows.
\<close>

theorem lookup_not_found:
  assumes keys: "p ''state'' = Some state" "p ''frequency'' = Some fr"
    "p ''frequency_unit'' = Some fu" "p ''start'' = Some start"
    and target: "k \<in> {''job_template'', ''project'', ''inventory_source''}" "p k = Some x" "truthy x"
    and others: "\<And>k'. k' \<in> {''job_template'', ''project'', ''inventory_source''} \<Longrightarrow> k' \<noteq> k \<Longrightarrow>
                   \<exists>x'. p k' = Some x' \<and> \<not> truthy x'"
    and not_found: "get_resource env k ''name'' x = Inl (NotFound m)"
  shows "main env p =
           (Failed \<lparr>fail_msg = ''Failed to update schedule: '' @ m, fail_changed = False\<rparr>,
            [Lookup k ''name'' x])"
proof -
  have "update_resources env (popped p) =
          (Inl (Failed \<lparr>fail_msg = ''Failed to update schedule: '' @ m, fail_changed = False\<rparr>),
           [Lookup k ''name'' x])"
  proof -
    consider "k = ''job_template''" | "k = ''project''" | "k = ''inventory_source''"
      using target(1) by auto
    then show ?thesis
    proof cases
      case 1
      then show ?thesis
        using target not_found
        by (simp add: update_resources_def identity_map_def popped_def)
    next
      case 2
      obtain a where "p ''job_template'' = Some a" "\<not> truthy a"
        using others [of "''job_template''"] 2 by auto
      then show ?thesis
        using target not_found 2
        by (simp add: update_resources_def identity_map_def popped_def)
    next
      case 3
      obtain a where a: "p ''job_template'' = Some a" "\<not> truthy a"
        using others [of "''job_template''"] 3 by auto
      obtain b where "p ''project'' = Some b" "\<not> truthy b"
        using others [of "''project''"] 3 by auto
      then show ?thesis
        using target not_found 3 a
        by (simp add: update_resources_def identity_map_def popped_def)
    qed
  qed
  then show ?thesis
    by (simp add: main_run [OF keys])
qed

subsection \<open>The scenario, run\<close>

lemma scenario_keys:
  "scenario_params st s ''state'' = Some st"
  "scenario_params st s ''frequency'' = Some (PyInt 30)"
  "scenario_params st s ''frequency_unit'' = Some (PyStr ''minute'')"
  "scenario_params st s ''start'' = Some (PyStr s)"
  "dict_get (scenario_params st s) ''name'' = PyStr ''nightly''"
  by (simp_all add: scenario_params_def dict_get_def)

lemma scenario_resources:
  "get_resource env = get_resource scenario_env \<Longrightarrow>
   update_resources env (popped (scenario_params st s)) =
     (Inr ((popped (scenario_params st s))
             (''job_template'' := None, ''project'' \<mapsto> PyInt 7, ''inventory_source'' := None)),
      [Lookup ''project'' ''name'' (PyStr ''git project'')])"
  by (simp add: update_resources_def identity_map_def popped_def scenario_params_def
      scenario_env_def truthy_def)

lemma parse_2018: "parse_datetime_string rt ''2018-01-01T00:00:00Z'' = Inr ''20180101T000000Z''"
  by (simp add: parse_datetime_string_def strptime_2018 strftime_four_digits
      pad2_def pad4_def digit_char_def)

lemma rrule_30_minutes:
  "build_rrule ''20180101T000000Z'' (PyInt 30) (PyStr ''minute'') =
     Inr ''DTSTART:20180101T000000Z RRULE:FREQ=MINUTELY;INTERVAL=30''"
  by (simp add: build_rrule_def getitem_def unit_map_def py_str_def str_int_30)

lemma scenario_run:
  assumes "get_resource env = get_resource scenario_env"
  shows "main env (scenario_params st ''2018-01-01T00:00:00Z'') =
     dispatch env st [''schedule'' \<mapsto> PyStr ''nightly'', ''state'' \<mapsto> st]
       (call_params env st
          ((popped (scenario_params st ''2018-01-01T00:00:00Z''))
             (''job_template'' := None, ''project'' \<mapsto> PyInt 7, ''inventory_source'' := None))
          ''DTSTART:20180101T000000Z RRULE:FREQ=MINUTELY;INTERVAL=30'')
       [Lookup ''project'' ''name'' (PyStr ''git project'')]"
  using main_dispatched [OF scenario_keys(1-4) scenario_resources [OF assms] parse_2018 rrule_30_minutes]
  by (simp add: scenario_keys(5))

text \<open>
  Claim C2 as stated fails: with a project that resolves and the start
  \<^verbatim>\<open>2018/01/01T00:00:00Z\<close> the run ends with the failure of the timestamp, after the
  lookup of the project has gone out.
\<close>

theorem lookup_precedes_timestamp_check:
  "main scenario_env (scenario_params (PyStr ''present'') ''2018/01/01T00:00:00Z'') =
     (Failed \<lparr>fail_msg = ''Failed to update schedule, unable to parse datetime 2018/01/01T00:00:00Z: ''
                  @ ''time data '' @ repr_str ''2018/01/01T00:00:00Z''
                  @ '' does not match format '' @ repr_str iso_format,
               fail_changed = False\<rparr>,
      [Lookup ''project'' ''name'' (PyStr ''git project'')])"
  by (simp add: main_run [OF scenario_keys(1-4)] scenario_resources parse_slashes)

theorem rejected_start_witness:
  "scenario_params (PyStr ''disabled'') ''2018-13-01T00:00:00Z'' ''start'' = Some (PyStr ''2018-13-01T00:00:00Z'') \<and>
   parse_datetime_string (runtime scenario_env) ''2018-13-01T00:00:00Z'' =
     Inl (Failed \<lparr>fail_msg = ''Failed to update schedule, unable to parse datetime 2018-13-01T00:00:00Z: ''
                     @ ''time data '' @ repr_str ''2018-13-01T00:00:00Z''
                     @ '' does not match format '' @ repr_str iso_format,
                   fail_changed = False\<rparr>) \<and>
   modify_calls (snd (main scenario_env (scenario_params (PyStr ''disabled'') ''2018-13-01T00:00:00Z''))) = [] \<and>
   delete_calls (snd (main scenario_env (scenario_params (PyStr ''disabled'') ''2018-13-01T00:00:00Z''))) = [] \<and>
   main scenario_env (scenario_params (PyStr ''disabled'') ''2018-13-01T00:00:00Z'') =
     (Failed \<lparr>fail_msg = ''Failed to update schedule, unable to parse datetime 2018-13-01T00:00:00Z: ''
                  @ ''time data '' @ repr_str ''2018-13-01T00:00:00Z''
                  @ '' does not match format '' @ repr_str iso_format,
               fail_changed = False\<rparr>,
      [Lookup ''project'' ''name'' (PyStr ''git project'')])"
proof -
  let ?p = "scenario_params (PyStr ''disabled'') ''2018-13-01T00:00:00Z''"
  have start: "?p ''start'' = Some (PyStr ''2018-13-01T00:00:00Z'')"
    by (rule scenario_keys(4))
  note r = rejected_start [where p = "?p" and env = scenario_env, OF start parse_month13]
  have keys: "?p ''state'' = Some (PyStr ''disabled'') \<and> ?p ''frequency'' = Some (PyInt 30) \<and>
      ?p ''frequency_unit'' = Some (PyStr ''minute'') \<and>
      update_resources scenario_env (popped ?p) =
        (Inr ((popped ?p)(''job_template'' := None, ''project'' \<mapsto> PyInt 7, ''inventory_source'' := None)),
         [Lookup ''project'' ''name'' (PyStr ''git project'')])"
    using scenario_keys(1-3) scenario_resources [OF refl] by simp
  have run: "main scenario_env ?p =
     (Failed \<lparr>fail_msg = ''Failed to update schedule, unable to parse datetime 2018-13-01T00:00:00Z: ''
                  @ ''time data '' @ repr_str ''2018-13-01T00:00:00Z''
                  @ '' does not match format '' @ repr_str iso_format,
               fail_changed = False\<rparr>,
      [Lookup ''project'' ''name'' (PyStr ''git project'')])"
    using r keys by blast
  show ?thesis
    using r start parse_month13 run by blast
qed


theorem lookup_not_found_witness:
  "missing_project ''project'' = Some (PyStr ''no such project'') \<and>
   truthy (PyStr ''no such project'') \<and>
   missing_project ''job_template'' = Some PyNone \<and>
   missing_project ''inventory_source'' = Some PyNone \<and>
   \<not> truthy PyNone \<and>
   get_resource scenario_env ''project'' ''name'' (PyStr ''no such project'') =
     Inl (NotFound ''The requested object could not be found.'') \<and>
   main scenario_env missing_project =
     (Failed \<lparr>fail_msg = ''Failed to update schedule: The requested object could not be found.'',
               fail_changed = False\<rparr>,
      [Lookup ''project'' ''name'' (PyStr ''no such project'')])"
proof -
  have keys: "missing_project ''state'' = Some (PyStr ''present'')"
    "missing_project ''frequency'' = Some (PyInt 30)"
    "missing_project ''frequency_unit'' = Some (PyStr ''minute'')"
    "missing_project ''start'' = Some (PyStr ''2018-01-01T00:00:00Z'')"
    by (simp_all add: missing_project_def scenario_params_def)
  have target: "''project'' \<in> {''job_template'', ''project'', ''inventory_source''}"
    "missing_project ''project'' = Some (PyStr ''no such project'')"
    "truthy (PyStr ''no such project'')"
    by (simp_all add: missing_project_def truthy_def)
  have others: "\<exists>x'. missing_project k' = Some x' \<and> \<not> truthy x'"
    if "k' \<in> {''job_template'', ''project'', ''inventory_source''}" "k' \<noteq> ''project''" for k'
    using that by (auto simp add: missing_project_def scenario_params_def truthy_def)
  have nf: "get_resource scenario_env ''project'' ''name'' (PyStr ''no such project'') =
     Inl (NotFound ''The requested object could not be found.'')"
    by (simp add: scenario_env_def)
  note r = lookup_not_found [where p = missing_project and env = scenario_env, OF keys target others nf]
  have side: "missing_project ''job_template'' = Some PyNone"
    "missing_project ''inventory_source'' = Some PyNone" "\<not> truthy PyNone"
    by (simp_all add: missing_project_def scenario_params_def truthy_def)
  show ?thesis
    using r target(2,3) side nf by simp
qed


theorem enabled_flag_witness:
  "scenario_params (PyStr ''disabled'') ''2018-01-01T00:00:00Z'' ''state'' = Some (PyStr ''disabled'') \<and>
   (case modify_calls (snd (main scenario_env (scenario_params (PyStr ''disabled'') ''2018-01-01T00:00:00Z''))) of
      [q] \<Rightarrow> q ''enabled'' = Some (PyBool False)
    | _ \<Rightarrow> False) \<and>
   (case modify_calls (snd (main scenario_env (scenario_params (PyStr ''present'') ''2018-01-01T00:00:00Z''))) of
      [q] \<Rightarrow> q ''enabled'' = Some (PyBool True)
    | _ \<Rightarrow> False) \<and>
   (case delete_calls (snd (main scenario_env (scenario_params (PyStr ''absent'') ''2018-01-01T00:00:00Z''))) of
      [q] \<Rightarrow> q ''enabled'' = Some (PyBool True)
    | _ \<Rightarrow> False)"
  using enabled_flag [where p = "scenario_params (PyStr ''disabled'') ''2018-01-01T00:00:00Z''"
      and env = scenario_env, OF scenario_keys(1)]
    enabled_flag [where p = "scenario_params (PyStr ''present'') ''2018-01-01T00:00:00Z''"
      and env = scenario_env, OF scenario_keys(1)]
    enabled_flag [where p = "scenario_params (PyStr ''absent'') ''2018-01-01T00:00:00Z''"
      and env = scenario_env, OF scenario_keys(1)]
  by (simp add: scenario_run [OF refl] dispatch_trace scenario_keys(1))


theorem failure_reports_unchanged_witness:
  "(case parse_datetime_string (runtime scenario_env) ''2018-01-01T00:00:00'' of
      Inl (Failed f) \<Rightarrow> \<not> fail_changed f | _ \<Rightarrow> False) \<and>
   (case fst (update_resources scenario_env missing_project) of
      Inl (Failed f) \<Rightarrow> \<not> fail_changed f | _ \<Rightarrow> False) \<and>
   (case fst (main unreachable_env (scenario_params (PyStr ''present'') ''2018-01-01T00:00:00Z'')) of
      Failed f \<Rightarrow> \<not> fail_changed f \<and> fail_msg f = ''Failed to update schedule: connection refused''
    | _ \<Rightarrow> False)"
proof -
  obtain f1 where f1: "parse_datetime_string (runtime scenario_env) ''2018-01-01T00:00:00'' = Inl (Failed f1)"
    by (simp add: parse_datetime_string_def strptime_def regex_defs)
  obtain f2 where f2: "fst (update_resources scenario_env missing_project) = Inl (Failed f2)"
    by (simp add: update_resources_def identity_map_def missing_project_def scenario_params_def
        scenario_env_def truthy_def)
  have f3: "fst (main unreachable_env (scenario_params (PyStr ''present'') ''2018-01-01T00:00:00Z''))
      = Failed \<lparr>fail_msg = ''Failed to update schedule: connection refused'', fail_changed = False\<rparr>"
    by (simp add: scenario_run unreachable_env_def dispatch_def report_def)
  show ?thesis
    using failure_reports_unchanged [where rt = "runtime scenario_env" and s = "''2018-01-01T00:00:00''"
        and f = f1]
      failure_reports_unchanged [where f = f2 and env = scenario_env and p = missing_project]
      failure_reports_unchanged [where env = unreachable_env
        and f = "\<lparr>fail_msg = ''Failed to update schedule: connection refused'', fail_changed = False\<rparr>"
        and p = "scenario_params (PyStr ''present'') ''2018-01-01T00:00:00Z''"]
      f1 f2 f3
    by simp
qed


theorem dispatch_by_state_witness:
  "scenario_params (PyStr ''absent'') ''2018-01-01T00:00:00Z'' ''state'' = Some (PyStr ''absent'') \<and>
   scenario_params (PyStr ''present'') ''2018-01-01T00:00:00Z'' ''state'' = Some (PyStr ''present'') \<and>
   modify_calls (snd (main scenario_env (scenario_params (PyStr ''absent'') ''2018-01-01T00:00:00Z''))) = [] \<and>
   length (delete_calls (snd (main scenario_env (scenario_params (PyStr ''absent'') ''2018-01-01T00:00:00Z'')))) = 1 \<and>
   (case fst (main scenario_env (scenario_params (PyStr ''absent'') ''2018-01-01T00:00:00Z'')) of
      Exited out \<Rightarrow> out ''id'' = None \<and> out ''changed'' = Some (PyBool True)
    | _ \<Rightarrow> False) \<and>
   delete_calls (snd (main scenario_env (scenario_params (PyStr ''present'') ''2018-01-01T00:00:00Z''))) = [] \<and>
   length (modify_calls (snd (main scenario_env (scenario_params (PyStr ''present'') ''2018-01-01T00:00:00Z'')))) = 1 \<and>
   (case fst (main scenario_env (scenario_params (PyStr ''present'') ''2018-01-01T00:00:00Z'')) of
      Exited out \<Rightarrow> out ''id'' = Some (PyInt 42) \<and> out ''changed'' = Some (PyBool True)
    | _ \<Rightarrow> False)"
proof -
  have calls: "schedule_delete scenario_env q = Inr (PyBool True)"
    "schedule_modify scenario_env q = Inr \<lparr>res_id = PyInt 42, res_changed = PyBool True\<rparr>" for q
    by (simp_all add: scenario_env_def)
  have absent: "fst (main scenario_env (scenario_params (PyStr ''absent'') ''2018-01-01T00:00:00Z'')) =
      Exited [''schedule'' \<mapsto> PyStr ''nightly'', ''state'' \<mapsto> PyStr ''absent'', ''changed'' \<mapsto> PyBool True]"
    "length (delete_calls (snd (main scenario_env (scenario_params (PyStr ''absent'') ''2018-01-01T00:00:00Z'')))) = 1"
    by (simp_all add: scenario_run [OF refl] dispatch_def calls)
  have present: "fst (main scenario_env (scenario_params (PyStr ''present'') ''2018-01-01T00:00:00Z'')) =
      Exited [''schedule'' \<mapsto> PyStr ''nightly'', ''state'' \<mapsto> PyStr ''present'',
              ''id'' \<mapsto> PyInt 42, ''changed'' \<mapsto> PyBool True]"
    "length (modify_calls (snd (main scenario_env (scenario_params (PyStr ''present'') ''2018-01-01T00:00:00Z'')))) = 1"
    by (simp_all add: scenario_run [OF refl] dispatch_def calls)
  note a = dispatch_by_state [where p = "scenario_params (PyStr ''absent'') ''2018-01-01T00:00:00Z''"
      and env = scenario_env, OF scenario_keys(1)]
  note b = dispatch_by_state [where p = "scenario_params (PyStr ''present'') ''2018-01-01T00:00:00Z''"
      and env = scenario_env, OF scenario_keys(1)]
  have "modify_calls (snd (main scenario_env (scenario_params (PyStr ''absent'') ''2018-01-01T00:00:00Z''))) = []"
    using a by simp
  moreover have "delete_calls (snd (main scenario_env (scenario_params (PyStr ''present'') ''2018-01-01T00:00:00Z''))) = []"
    using b by simp
  ultimately show ?thesis
    using absent present by (simp add: scenario_keys(1))
qed


theorem update_fields_frame_witness:
  "(0::nat) < next_ref one_dict \<and>
   (case update_fields py_repr one_dict 0 of
      Inl e \<Rightarrow> False
    | Inr (st', r) \<Rightarrow>
        r \<noteq> 0 \<and> objs st' 0 = objs one_dict 0 \<and>
        objs st' r ''extra_data'' = Some (PyStr (py_repr (PyDict [(''a'', PyInt 1)]))) \<and>
        objs st' r ''name'' = Some (PyStr ''nightly''))"
proof -
  have live: "0 < next_ref one_dict" by (simp add: one_dict_def)
  note r = update_fields_frame [OF live, of py_repr]
  then obtain st' r' where run: "update_fields py_repr one_dict 0 = Inr (st', r')" by blast
  have "r' \<noteq> 0 \<and> objs st' 0 = objs one_dict 0 \<and>
        objs st' r' = extra_data_serialised py_repr (objs one_dict 0)"
    using r run by blast
  then show ?thesis
    using live run by (simp add: extra_data_serialised_def one_dict_def)
qed

end
